theory Spec2Isabelle
  imports Complex_Main "HOL-Library.Multiset" "HOL-Library.Sublist"
begin

section \<open>Data model\<close>

text \<open>
  The report is rendered from a pandas DataFrame built from the JSON payload of the
  positions API. A cell of the frame is a float (\<open>Num\<close>), an integer (\<open>PyInt\<close>, a JSON
  integer), a string, the float NaN that pandas stores for a missing key, or Python's
  \<open>None\<close> (a JSON null in a text column).
  Floats are modelled as rationals: the decisions of the code (comparisons with \<open>0\<close>
  and \<open>1.5\<close>, scaling by \<open>100\<close>, sorting) are stated over exact arithmetic, and the
  rounding of binary floating point is not modelled. A numeric series is a list of
  optional rationals, \<open>None\<close> standing for NaN. Sums are treated apart (see
  \<open>col_sum\<close>): the sum of an int64 column wraps around, and the sum of any other
  column is left to the library.
\<close>

datatype cell = Num rat | PyInt int | Str string | NaN | PyNone

type_synonym row = "string \<Rightarrow> cell"

record dataframe =
  df_columns :: "string list"
  df_rows :: "row list"

text \<open>
  Library behaviour the source relies on and that is not part of the repository:
  \<^item> \<open>parse_str\<close>: how \<open>pd.to_numeric\<close> reads a string;
  \<^item> \<open>str_cell\<close>: what \<open>astype(str)\<close> makes of a cell that is not a string, in the
    column of the given name: a number is printed according to the dtype of the column
    (\<open>5\<close> in a column of integers, \<open>5.0\<close> in a column of floats); pandas 2 passes
    a NaN and a \<open>None\<close> through \<open>str\<close> and gives the texts \<open>nan\<close> and \<open>None\<close>
    (\<open>Some ''nan''\<close>, \<open>Some ''None''\<close>), pandas 3 keeps them missing (\<open>None\<close>);
    \<open>setup.py\<close> admits both (\<open>pandas>=2.0.0\<close>);
  \<^item> \<open>format\<close>: Python's \<open>format(x, spec)\<close> for the format specifications used in
    the f-strings;
  \<^item> \<open>lib_sum\<close>: what \<open>Series.sum()\<close> returns for a column that is not a column of
    int64 integers (float64 addition rounds), given the cells of the column in the
    input frame and the cells of the rows that are summed, in their order.
  Every function below takes them as the parameter \<open>L\<close>.
\<close>

record pylib =
  parse_str :: "string \<Rightarrow> rat option"
  str_cell :: "string \<Rightarrow> cell \<Rightarrow> string option"
  format :: "string \<Rightarrow> rat \<Rightarrow> string"
  lib_sum :: "cell list \<Rightarrow> cell list \<Rightarrow> rat"

text \<open>The default column names of \<open>df_to_pretty_html_marketstyle\<close>; no caller overrides them.\<close>

definition title_col :: string where "title_col = ''title''"
definition slug_col :: string where "slug_col = ''marketSlug''"
definition logo_col :: string where "logo_col = ''icon''"
definition side_col :: string where "side_col = ''outcome''"
definition size_col :: string where "size_col = ''size''"
definition avg_price_col :: string where "avg_price_col = ''avgPrice''"
definition cur_price_col :: string where "cur_price_col = ''curPrice''"
definition value_col :: string where "value_col = ''currentValue''"
definition cash_pnl_col :: string where "cash_pnl_col = ''cashPnl''"
definition pct_pnl_col :: string where "pct_pnl_col = ''percentPnl''"

section \<open>Column access and coercion\<close>

text \<open>\<open>pd.to_numeric(x, errors="coerce")\<close> on one cell: a failed parse is NaN.\<close>

fun to_numeric :: "pylib \<Rightarrow> cell \<Rightarrow> rat option" where
  "to_numeric L (Num r) = Some r"
| "to_numeric L (PyInt i) = Some (of_int i)"
| "to_numeric L (Str s) = parse_str L s"
| "to_numeric L NaN = None"
| "to_numeric L PyNone = None"

text \<open>
  \<open>astype(str)\<close> on one cell of column \<open>c\<close>; \<open>None\<close> is a value that stays missing.
  A string is kept; what becomes of any other cell is taken from \<open>L\<close>.
\<close>

fun astype_str :: "pylib \<Rightarrow> string \<Rightarrow> cell \<Rightarrow> string option" where
  "astype_str L c (Str s) = Some s"
| "astype_str L c (Num r) = str_cell L c (Num r)"
| "astype_str L c (PyInt i) = str_cell L c (PyInt i)"
| "astype_str L c NaN = str_cell L c NaN"
| "astype_str L c PyNone = str_cell L c PyNone"

definition has_col :: "dataframe \<Rightarrow> string \<Rightarrow> bool" where
  "has_col df c = (c \<in> set (df_columns df))"

definition column :: "dataframe \<Rightarrow> string \<Rightarrow> cell list" where
  "column df c = map (\<lambda>r. r c) (df_rows df)"

definition numeric_column :: "pylib \<Rightarrow> dataframe \<Rightarrow> string \<Rightarrow> rat option list" where
  "numeric_column L df c = map (to_numeric L) (column df c)"

definition nan_series :: "dataframe \<Rightarrow> rat option list" where
  "nan_series df = replicate (length (df_rows df)) None"

definition dropna :: "rat option list \<Rightarrow> rat list" where
  "dropna col = List.map_filter id col"

text \<open>
  \<open>Series.median()\<close> of a series without NaN: the middle value of the sorted values,
  or the mean of the two middle values. The source calls it on a non-empty series only.
\<close>

definition median :: "rat list \<Rightarrow> rat" where
  "median xs =
     (let s = sort xs; n = length s
      in if n mod 2 = 1 then s ! (n div 2)
         else (s ! (n div 2 - 1) + s ! (n div 2)) / 2)"

section \<open>The data normalizer\<close>

definition to_pct01 :: "pylib \<Rightarrow> dataframe \<Rightarrow> string \<Rightarrow> rat option list" where
  "to_pct01 L df colname =
     (if \<not> has_col df colname then nan_series df
      else let col = numeric_column L df colname
           in case dropna col of
                [] \<Rightarrow> col
              | s # _ \<Rightarrow> if \<bar>s\<bar> > 1.5 then map (map_option (\<lambda>x. x / 100)) col else col)"

definition to_cents :: "pylib \<Rightarrow> dataframe \<Rightarrow> string \<Rightarrow> rat option list" where
  "to_cents L df colname =
     (if \<not> has_col df colname then nan_series df
      else let col = numeric_column L df colname;
               med = (if dropna col \<noteq> [] then Some (median (dropna col)) else None)
           in case med of
                Some m \<Rightarrow> if m \<le> 1.5 then map (map_option (\<lambda>x. x * 100)) col else col
              | None \<Rightarrow> col)"

section \<open>Strings\<close>

text \<open>
  A string is a list of characters with code points below 256, a \<open>char\<close> being one
  code point. \<open>lower\<close> maps \<open>A\<close>..\<open>Z\<close> to \<open>a\<close>..\<open>z\<close>; the source only compares its
  result with a word of ASCII letters, which no other character lowers to. \<open>strip\<close>
  removes leading and trailing white space, the characters on which \<open>str.isspace\<close>
  holds.
\<close>

definition lower_char :: "char \<Rightarrow> char" where
  "lower_char c =
     (case map_of (zip ''ABCDEFGHIJKLMNOPQRSTUVWXYZ'' ''abcdefghijklmnopqrstuvwxyz'') c of
        Some l \<Rightarrow> l
      | None \<Rightarrow> c)"

definition lower :: "string \<Rightarrow> string" where
  "lower s = map lower_char s"

definition is_space :: "char \<Rightarrow> bool" where
  "is_space c =
     (c \<in> set [CHR '' '', CHR 0x09, CHR 0x0A, CHR 0x0B, CHR 0x0C, CHR 0x0D,
                CHR 0x1C, CHR 0x1D, CHR 0x1E, CHR 0x1F, CHR 0x85, CHR 0xA0])"

definition strip :: "string \<Rightarrow> string" where
  "strip s = rev (dropWhile is_space (rev (dropWhile is_space s)))"

fun join :: "string \<Rightarrow> string list \<Rightarrow> string" where
  "join sep [] = []"
| "join sep [x] = x"
| "join sep (x # y # ys) = x @ sep @ join sep (y # ys)"

definition nl :: string where
  "nl = [CHR 0x0A]"

definition spaces :: "nat \<Rightarrow> string" where
  "spaces n = replicate n (CHR '' '')"

text \<open>
  The text after the number in \<open>_fmt_cents\<close>: the source line holds the two characters
  U+00C2 and U+00A2 (the bytes C3 82 C2 A2 of the file, read as UTF-8).
\<close>

definition cent_sign :: string where
  "cent_sign = [CHR 0xC2, CHR 0xA2]"

section \<open>Formatting helpers\<close>

definition fmt_cents :: "pylib \<Rightarrow> rat option \<Rightarrow> string" where
  "fmt_cents L x = (case x of None \<Rightarrow> [] | Some v \<Rightarrow> format L ''.0f'' v @ cent_sign)"

definition fmt_money :: "pylib \<Rightarrow> rat option \<Rightarrow> string" where
  "fmt_money L x = (case x of None \<Rightarrow> [] | Some v \<Rightarrow> ''$'' @ format L '',.2f'' v)"

definition fmt_pnl_line :: "pylib \<Rightarrow> rat option \<Rightarrow> rat option \<Rightarrow> string" where
  \<open>fmt_pnl_line L cash pct01 =
     (if cash = None \<and> pct01 = None then []
      else
        let cash_s = (if cash \<noteq> None then fmt_money L cash else []);
            pct_s = (case pct01 of Some p \<Rightarrow> format L ''.2f'' (p * 100) @ ''%'' | None \<Rightarrow> []);
            sign = (if (case cash of Some c \<Rightarrow> c \<ge> 0 | None \<Rightarrow> False)
                       \<or> (cash = None \<and> (case pct01 of Some p \<Rightarrow> p \<ge> 0 | None \<Rightarrow> False))
                    then ''pos'' else ''neg'');
            inner = (if cash_s \<noteq> [] then [cash_s] else [])
                    @ (if pct_s \<noteq> [] then [''('' @ pct_s @ '')''] else [])
        in ''<span class="pnl '' @ sign @ ''">'' @ join '' '' inner @ ''</span>'')\<close>

section \<open>Filtering and sorting\<close>

text \<open>
  \<open>df[value_col] = pd.to_numeric(df[value_col], errors="coerce")\<close>: the value cell of
  every row is replaced by its parse.
\<close>

definition coerce_value :: "pylib \<Rightarrow> row \<Rightarrow> row" where
  "coerce_value L r =
     r(value_col := (case to_numeric L (r value_col) of Some v \<Rightarrow> Num v | None \<Rightarrow> NaN))"

text \<open>\<open>df[df[value_col] > 0]\<close>: a comparison with NaN is false.\<close>

definition value_positive :: "row \<Rightarrow> bool" where
  "value_positive r = (case r value_col of Num v \<Rightarrow> v > 0 | _ \<Rightarrow> False)"

definition num_of :: "cell \<Rightarrow> rat" where
  "num_of c = (case c of Num v \<Rightarrow> v | _ \<Rightarrow> 0)"

definition is_num :: "cell \<Rightarrow> bool" where
  "is_num c = (case c of Num v \<Rightarrow> True | _ \<Rightarrow> False)"

text \<open>
  \<open>sort_values(by=col, ascending=False)\<close> on a numeric column: rows with a number come
  first, in descending order, rows with NaN last. Rows with equal keys are kept here in
  their original order; pandas leaves their order open, and no theorem below depends on it.
\<close>

definition sort_values_desc :: "string \<Rightarrow> row list \<Rightarrow> row list" where
  "sort_values_desc c rs =
     sort_key (\<lambda>r. - num_of (r c)) (filter (\<lambda>r. is_num (r c)) rs)
     @ filter (\<lambda>r. \<not> is_num (r c)) rs"

definition filter_sort :: "pylib \<Rightarrow> dataframe \<Rightarrow> dataframe" where
  "filter_sort L df =
     (if has_col df value_col
      then df\<lparr>df_rows :=
             sort_values_desc value_col
               (filter value_positive (map (coerce_value L) (df_rows df)))\<rparr>
      else df)"


section \<open>Projection into display rows\<close>

text \<open>
  The four text series. An entry is \<open>None\<close> when it is missing (\<open>pd.notna\<close> is false
  on it), \<open>Some\<close> of its text otherwise.
\<close>

definition titles :: "pylib \<Rightarrow> dataframe \<Rightarrow> string option list" where
  "titles L df =
     (if has_col df title_col then map (astype_str L title_col) (column df title_col)
      else if has_col df ''marketQuestion'' then map (astype_str L ''marketQuestion'') (column df ''marketQuestion'')
      else replicate (length (df_rows df)) (Some []))"

definition slugs :: "pylib \<Rightarrow> dataframe \<Rightarrow> string option list" where
  "slugs L df =
     (if has_col df slug_col then map (astype_str L slug_col) (column df slug_col)
      else replicate (length (df_rows df)) None)"

definition logos :: "pylib \<Rightarrow> dataframe \<Rightarrow> string option list" where
  "logos L df =
     (if has_col df logo_col then map (astype_str L logo_col) (column df logo_col)
      else replicate (length (df_rows df)) (Some []))"

definition side :: "pylib \<Rightarrow> dataframe \<Rightarrow> string option list" where
  "side L df =
     (if has_col df side_col then map (astype_str L side_col) (column df side_col)
      else replicate (length (df_rows df)) (Some []))"

definition shares :: "pylib \<Rightarrow> dataframe \<Rightarrow> rat option list" where
  "shares L df =
     (if has_col df size_col then numeric_column L df size_col else nan_series df)"

definition chip_html :: "string \<Rightarrow> string" where
  \<open>chip_html side_val =
     (if lower side_val = ''yes'' then ''<span class="chip chip-yes">'' @ side_val @ ''</span>''
      else if lower side_val = ''no'' then ''<span class="chip chip-no">'' @ side_val @ ''</span>''
      else if side_val \<noteq> [] then ''<span class="chip">'' @ side_val @ ''</span>''
      else [])\<close>

text \<open>
  \<open>side_val = side.iloc[i] if pd.notna(side.iloc[i]) and side.iloc[i] != "" else ""\<close>
\<close>

definition side_val_of :: "string option \<Rightarrow> string" where
  "side_val_of side_i = (case side_i of Some s \<Rightarrow> if s \<noteq> [] then s else [] | None \<Rightarrow> [])"

text \<open>The body of the loop that builds \<open>market_cells\<close>, for row \<open>i\<close>.\<close>

definition market_cell ::
  "pylib \<Rightarrow> string option \<Rightarrow> string option \<Rightarrow> string option \<Rightarrow> string option
     \<Rightarrow> rat option \<Rightarrow> rat option \<Rightarrow> string"
where
  \<open>market_cell L title_i slug_i logo_i side_i shares_i avg_i =
     (let title_txt = (case title_i of Some t \<Rightarrow> t | None \<Rightarrow> []);
          slug = (case slug_i of
                    Some s \<Rightarrow> if lower s \<noteq> ''nan'' then Some s else None
                  | None \<Rightarrow> None);
          logo = (case logo_i of Some l \<Rightarrow> if strip l \<noteq> [] then l else [] | None \<Rightarrow> []);
          side_val = side_val_of side_i;
          title_html =
            (case slug of
               Some s \<Rightarrow>
                 if s \<noteq> []
                 then ''<a class="title-link" target="_blank" href="''
                      @ (''https://polymarket.com/market/'' @ s) @ ''">'' @ title_txt @ ''</a>''
                 else ''<span class="title-text">'' @ title_txt @ ''</span>''
             | None \<Rightarrow> ''<span class="title-text">'' @ title_txt @ ''</span>'');
          logo_html = (if logo \<noteq> [] then ''<img class="logo" src="'' @ logo @ ''" alt="logo">'' else []);
          position_bits =
            (case shares_i of Some sh \<Rightarrow> [format L '',.1f'' sh @ '' shares''] | None \<Rightarrow> [])
            @ (case avg_i of Some a \<Rightarrow> [''at '' @ fmt_cents L avg_i] | None \<Rightarrow> []);
          position_info = join '' '' position_bits;
          position_html =
            (if position_info \<noteq> [] then ''<div class="position-info">'' @ position_info @ ''</div>''
             else [])
      in ''<div class="market-wrap">'' @ nl
         @ spaces 16 @ logo_html @ nl
         @ spaces 16 @ ''<div class="market-content">'' @ nl
         @ spaces 20 @ ''<div class="market-header">'' @ nl
         @ spaces 24 @ ''<div class="market-title">'' @ title_html @ ''</div>'' @ nl
         @ spaces 24 @ ''<div class="market-chip">'' @ chip_html side_val @ ''</div>'' @ nl
         @ spaces 20 @ ''</div>'' @ nl
         @ spaces 20 @ position_html @ nl
         @ spaces 16 @ ''</div>'' @ nl
         @ spaces 12 @ ''</div>'')\<close>

definition market_cells :: "pylib \<Rightarrow> dataframe \<Rightarrow> string list" where
  "market_cells L df =
     map (\<lambda>i. market_cell L (titles L df ! i) (slugs L df ! i) (logos L df ! i) (side L df ! i)
                  (shares L df ! i) (to_cents L df avg_price_col ! i))
         [0 ..< length (df_rows df)]"

definition value_series :: "pylib \<Rightarrow> dataframe \<Rightarrow> rat option list" where
  "value_series L df =
     (if has_col df value_col then numeric_column L df value_col else nan_series df)"

definition cash_series :: "pylib \<Rightarrow> dataframe \<Rightarrow> rat option list" where
  "cash_series L df =
     (if has_col df cash_pnl_col then numeric_column L df cash_pnl_col else nan_series df)"

definition value_cell :: "pylib \<Rightarrow> rat option \<Rightarrow> rat option \<Rightarrow> rat option \<Rightarrow> string" where
  \<open>value_cell L value_i cash_i pct_i =
     (let vline = (if value_i \<noteq> None then fmt_money L value_i else []);
          pline = fmt_pnl_line L cash_i pct_i
      in ''<div class="val">'' @ vline @ ''</div>''
         @ (if pline \<noteq> [] then ''<div class="sub">'' @ pline @ ''</div>'' else []))\<close>

definition value_cells :: "pylib \<Rightarrow> dataframe \<Rightarrow> string list" where
  "value_cells L df =
     (let cash = cash_series L df; pct01 = to_pct01 L df pct_pnl_col
      in map (\<lambda>i. value_cell L (value_series L df ! i)
                     (if i < length cash then cash ! i else None)
                     (if i < length pct01 then pct01 ! i else None))
             [0 ..< length (df_rows df)])"

text \<open>A row of the \<open>display\<close> frame: the cells MARKET, AVG, CURRENT and VALUE.\<close>

record display_row =
  MARKET :: string
  AVG :: string
  CURRENT :: string
  VALUE :: string

definition display :: "pylib \<Rightarrow> dataframe \<Rightarrow> display_row list" where
  "display L df =
     map (\<lambda>i. \<lparr>MARKET = market_cells L df ! i,
                AVG = map (fmt_cents L) (to_cents L df avg_price_col) ! i,
                CURRENT = map (fmt_cents L) (to_cents L df cur_price_col) ! i,
                VALUE = value_cells L df ! i\<rparr>)
         [0 ..< length (df_rows df)]"

section \<open>The table body\<close>

definition separator_row :: string where
  \<open>separator_row = ''<tr class="separator-row"><td colspan="4"></td></tr>''\<close>

definition row_html :: "display_row \<Rightarrow> string" where
  "row_html r =
     ''<tr>'' @ concat (map (\<lambda>c. ''<td>'' @ c @ ''</td>'') [MARKET r, AVG r, CURRENT r, VALUE r])
     @ ''</tr>''"

text \<open>
  The loop over \<open>display.iterrows()\<close>: the index \<open>i\<close> runs from 0, and each step appends
  to \<open>rows_html\<close>.
\<close>

definition rows_html_step :: "nat \<times> display_row \<Rightarrow> string list \<Rightarrow> string list" where
  "rows_html_step ir acc =
     (case ir of (i, r) \<Rightarrow>
        (if i > 0 \<and> i mod 5 = 0 then acc @ [separator_row] else acc) @ [row_html r])"

definition rows_html :: "display_row list \<Rightarrow> string list" where
  "rows_html d = fold rows_html_step (enumerate 0 d) []"

section \<open>The report\<close>

text \<open>
  \<open>Series.sum()\<close> skips NaN and is 0 when nothing is left. On a column that pandas
  holds as int64 the additions wrap around modulo \<open>2^64\<close>; a column whose cells are
  all integers within the int64 range is such a column, from the construction of the
  frame on (or, held as Python objects, from \<open>pd.to_numeric\<close> on). The sum of any
  other column (float64 addition, which rounds) is taken from \<open>L\<close>.
  \<open>col_sum L all cells\<close> is the sum of the \<open>cells\<close> of the rows left after filtering,
  for a column whose cells in the input frame are \<open>all\<close>. In an int64 column every
  value is an integer, and \<open>\<lfloor>sum_list vs\<rfloor>\<close> is their exact sum, before the wrap-around.
\<close>

definition int64_cell :: "cell \<Rightarrow> bool" where
  "int64_cell c = (case c of PyInt i \<Rightarrow> - (2 ^ 63) \<le> i \<and> i < 2 ^ 63 | _ \<Rightarrow> False)"

definition wrap64 :: "int \<Rightarrow> int" where
  "wrap64 x = (x + 2 ^ 63) mod 2 ^ 64 - 2 ^ 63"

definition col_sum :: "pylib \<Rightarrow> cell list \<Rightarrow> cell list \<Rightarrow> rat" where
  "col_sum L all cells =
     (let vs = dropna (map (to_numeric L) cells)
      in if vs = [] then 0
         else if list_all int64_cell all then of_int (wrap64 \<lfloor>sum_list vs\<rfloor>)
         else lib_sum L all cells)"

text \<open>
  What \<open>df_to_pretty_html_marketstyle\<close> interpolates into its fixed HTML template: the
  three numbers of the stats bar, with their texts and the colour of the P&L, and the
  table body. Without the column, \<open>value\<close> and \<open>cash\<close> are series of NaN, whose sum
  is 0.
\<close>

record report =
  n_positions :: nat
  total_value :: rat
  total_pnl :: rat
  total_value_text :: string
  total_pnl_text :: string
  pnl_color :: string
  table_rows :: "string list"
  tbody_content :: string

definition value_sum :: "pylib \<Rightarrow> dataframe \<Rightarrow> dataframe \<Rightarrow> rat" where
  "value_sum L df0 df =
     (if has_col df value_col then col_sum L (column df0 value_col) (column df value_col) else 0)"

definition cash_sum :: "pylib \<Rightarrow> dataframe \<Rightarrow> dataframe \<Rightarrow> rat" where
  "cash_sum L df0 df =
     (if has_col df cash_pnl_col then col_sum L (column df0 cash_pnl_col) (column df cash_pnl_col)
      else 0)"

definition df_to_pretty_html_marketstyle :: "pylib \<Rightarrow> dataframe \<Rightarrow> report" where
  "df_to_pretty_html_marketstyle L df0 =
     (let df = filter_sort L df0;
          rows = rows_html (display L df)
      in \<lparr>n_positions = length (df_rows df),
          total_value = value_sum L df0 df,
          total_pnl = cash_sum L df0 df,
          total_value_text = ''$'' @ format L '',.0f'' (value_sum L df0 df),
          total_pnl_text = ''$'' @ format L ''+,.0f'' (cash_sum L df0 df),
          pnl_color = (if cash_sum L df0 df \<ge> 0 then ''#10b981'' else ''#ef4444''),
          table_rows = rows,
          tbody_content = join nl rows\<rparr>)"


section \<open>Notions used to state the properties\<close>

text \<open>The first value of a numeric series that is not NaN.\<close>

fun first_parsed :: "rat option list \<Rightarrow> rat option" where
  "first_parsed [] = None"
| "first_parsed (None # xs) = first_parsed xs"
| "first_parsed (Some v # xs) = Some v"

text \<open>A record has a positive, parseable \<open>currentValue\<close>.\<close>

definition positive_value :: "pylib \<Rightarrow> row \<Rightarrow> bool" where
  "positive_value L r = (case to_numeric L (r value_col) of Some v \<Rightarrow> v > 0 | None \<Rightarrow> False)"

text \<open>
  The records of the input frame that the report keeps: those with a positive value when
  the frame has the value column, all of them when it has not.
\<close>

definition kept :: "pylib \<Rightarrow> dataframe \<Rightarrow> row list" where
  "kept L df = (if has_col df value_col then filter (positive_value L) (df_rows df) else df_rows df)"

text \<open>
  The amount a record contributes to the sum of column \<open>c\<close>: its parsed value, or 0 when
  the value is absent or the frame has no such column.
\<close>

definition amount :: "pylib \<Rightarrow> dataframe \<Rightarrow> string \<Rightarrow> row \<Rightarrow> rat" where
  "amount L df c r =
     (if has_col df c then (case to_numeric L (r c) of Some v \<Rightarrow> v | None \<Rightarrow> 0) else 0)"

text \<open>
  Column \<open>c\<close> of the input frame is a column of 64-bit integers: every cell is an
  integer of the int64 range.
\<close>

definition int64_column :: "dataframe \<Rightarrow> string \<Rightarrow> bool" where
  "int64_column df c = (has_col df c \<and> list_all int64_cell (column df c))"


section \<open>Fetching, writing and sending\<close>

text \<open>
  \<open>pd.DataFrame(data)\<close> on the list of JSON objects the API returns: the columns are the
  keys in order of first appearance, and a key missing from an object is NaN.
\<close>

definition DataFrame :: "(string \<times> cell) list list \<Rightarrow> dataframe" where
  "DataFrame data =
     \<lparr>df_columns = rev (remdups (rev (concat (map (map fst) data)))),
      df_rows = map (\<lambda>kv c. case map_of kv c of Some v \<Rightarrow> v | None \<Rightarrow> NaN) data\<rparr>"

text \<open>
  Python exceptions. \<open>BaseExceptionOnly\<close> stands for the exceptions that are not
  subclasses of \<open>Exception\<close> (such as \<open>KeyboardInterrupt\<close>), which \<open>except Exception\<close>
  does not catch. A computation that may raise returns \<open>exn + 'a\<close>.
\<close>

datatype exn =
    ValueError string
  | OSError string
  | SMTPAuthenticationError
  | SMTPException string
  | OtherException string
  | BaseExceptionOnly string

fun is_Exception :: "exn \<Rightarrow> bool" where
  "is_Exception (BaseExceptionOnly m) = False"
| "is_Exception e = True"

text \<open>
  \<open>repr(s)\<close> of a string: between apostrophes, or between double quotes when the string
  holds an apostrophe and no double quote; the backslash and the quote character are
  escaped, tab, newline and carriage return are written \<open>\t\<close>, \<open>\n\<close>, \<open>\r\<close>, and
  every other character that is not printable as \<open>\xNN\<close>.
\<close>

definition backslash :: char where
  "backslash = CHR 0x5C"

definition hex_digit :: "nat \<Rightarrow> char" where
  "hex_digit n = ''0123456789abcdef'' ! n"

definition printable :: "char \<Rightarrow> bool" where
  "printable c =
     (let n = (of_char c :: nat)
      in (32 \<le> n \<and> n < 127) \<or> (161 \<le> n \<and> n \<noteq> 173))"

definition repr_char :: "char \<Rightarrow> char \<Rightarrow> string" where
  "repr_char q c =
     (if c = backslash \<or> c = q then [backslash, c]
      else if c = CHR 0x09 then [backslash, CHR ''t'']
      else if c = CHR 0x0A then [backslash, CHR ''n'']
      else if c = CHR 0x0D then [backslash, CHR ''r'']
      else if printable c then [c]
      else [backslash, CHR ''x'', hex_digit (of_char c div 16), hex_digit (of_char c mod 16)])"

definition py_repr :: "string \<Rightarrow> string" where
  "py_repr s =
     (let q = (if CHR 0x27 \<in> set s \<and> CHR 0x22 \<notin> set s then CHR 0x22 else CHR 0x27)
      in [q] @ concat (map (repr_char q) s) @ [q])"

text \<open>
  \<open>int(s)\<close>: the no-break space and the next-line character count as spaces; then come
  optional white space of the C locale, an optional sign, decimal digits which single
  underscores may separate, and optional white space again. The text of the
  \<open>ValueError\<close> holds the first 200 characters of \<open>repr(s)\<close>.
\<close>

definition int_space :: "char \<Rightarrow> bool" where
  "int_space c = (c \<in> set [CHR '' '', CHR 0x09, CHR 0x0A, CHR 0x0B, CHR 0x0C, CHR 0x0D])"

definition digit_val :: "char \<Rightarrow> nat option" where
  "digit_val c = map_of (zip ''0123456789'' [0, 1, 2, 3, 4, 5, 6, 7, 8, 9]) c"

fun digits_ok :: "string \<Rightarrow> bool" where
  "digits_ok [] = False"
| "digits_ok [c] = (digit_val c \<noteq> None)"
| "digits_ok (c # d # cs) =
     (digit_val c \<noteq> None \<and> (if d = CHR ''_'' then digits_ok cs else digits_ok (d # cs)))"

definition digits_value :: "string \<Rightarrow> nat" where
  "digits_value cs = foldl (\<lambda>a c. case digit_val c of Some d \<Rightarrow> 10 * a + d | None \<Rightarrow> a) 0 cs"

definition py_int :: "string \<Rightarrow> exn + int" where
  "py_int s =
     (let a = map (\<lambda>c. if c = CHR 0x85 \<or> c = CHR 0xA0 then CHR '' '' else c) s;
          t = rev (dropWhile int_space (rev (dropWhile int_space a)));
          neg = (t \<noteq> [] \<and> hd t = CHR ''-'');
          u = (if t \<noteq> [] \<and> (hd t = CHR ''-'' \<or> hd t = CHR ''+'') then tl t else t)
      in if digits_ok u
         then Inr ((if neg then - 1 else 1) * int (digits_value u))
         else Inl (ValueError (''invalid literal for int() with base 10: ''
                               @ take 200 (py_repr s))))"

record smtp_config =
  smtp_server :: string
  smtp_port :: int
  sender_email :: string
  sender_password :: string
  sender_name :: "string option"
  use_tls :: bool

definition getenv :: "(string \<rightharpoonup> string) \<Rightarrow> string \<Rightarrow> string \<Rightarrow> string" where
  "getenv env k d = (case env k of Some v \<Rightarrow> v | None \<Rightarrow> d)"

definition from_env :: "(string \<rightharpoonup> string) \<Rightarrow> exn + smtp_config" where
  "from_env env =
     (case py_int (getenv env ''SMTP_PORT'' ''587'') of
        Inl e \<Rightarrow> Inl e
      | Inr port \<Rightarrow>
          Inr \<lparr>smtp_server = getenv env ''SMTP_SERVER'' ''smtp.gmail.com'',
               smtp_port = port,
               sender_email = getenv env ''GMAIL_EMAIL'' [],
               sender_password = getenv env ''GMAIL_APP_PASSWORD'' [],
               sender_name = env ''SENDER_NAME'',
               use_tls = (lower (getenv env ''USE_TLS'' ''True'') = ''true'')\<rparr>)"

definition validate :: "smtp_config \<Rightarrow> exn + bool" where
  "validate cfg =
     (if sender_email cfg = [] then Inl (ValueError ''GMAIL_EMAIL environment variable is required'')
      else if sender_password cfg = []
      then Inl (ValueError ''GMAIL_APP_PASSWORD environment variable is required'')
      else Inr True)"

text \<open>\<open>GmailSender()\<close>: the configuration is read from the environment and validated.\<close>

definition GmailSender :: "(string \<rightharpoonup> string) \<Rightarrow> exn + smtp_config" where
  "GmailSender env =
     (case from_env env of
        Inl e \<Rightarrow> Inl e
      | Inr cfg \<Rightarrow> (case validate cfg of Inl e \<Rightarrow> Inl e | Inr ok \<Rightarrow> Inr cfg))"

text \<open>
  What the network and the mail libraries do during one call of \<open>send_email\<close>: an
  exception raised while the message is assembled, one raised by
  \<open>ssl.create_default_context()\<close>, and one raised inside the SMTP session (connecting,
  STARTTLS, login, \<open>sendmail\<close>); \<open>None\<close> when the step succeeds.
\<close>

record smtp_world =
  build_error :: "exn option"
  ssl_error :: "exn option"
  session_error :: "exn option"

definition send_message :: "smtp_world \<Rightarrow> exn + bool" where
  "send_message W =
     (case ssl_error W of
        Some e \<Rightarrow> Inl e
      | None \<Rightarrow>
          (case session_error W of
             None \<Rightarrow> Inr True
           | Some (OSError m) \<Rightarrow> Inr False
           | Some SMTPAuthenticationError \<Rightarrow> Inr False
           | Some (SMTPException m) \<Rightarrow> Inr False
           | Some e \<Rightarrow> if is_Exception e then Inr False else Inl e))"

definition send_email :: "smtp_world \<Rightarrow> exn + bool" where
  "send_email W =
     (case (case build_error W of Some e \<Rightarrow> Inl e | None \<Rightarrow> send_message W) of
        Inr b \<Rightarrow> Inr b
      | Inl e \<Rightarrow> if is_Exception e then Inr False else Inl e)"

text \<open>
  Everything outside the program that one run of \<open>create_and_send_report\<close> meets: the
  answer of the positions API, the fixed HTML template (with the time stamp of its
  footer) into which the report is interpolated, a failure of the file system on
  writing, an exception raised by the import of the module \<open>gmail_sender\<close>, the
  environment variables, an exception raised when the report is read back for the mail
  (a \<open>UnicodeDecodeError\<close> is a \<open>ValueError\<close>), and the mail side. The calls of
  \<open>print\<close> are not modelled.
\<close>

record world =
  fetch :: "string \<Rightarrow> exn + dataframe"
  template :: "report \<Rightarrow> string"
  write_error :: "exn option"
  import_error :: "exn option"
  environ :: "string \<rightharpoonup> string"
  read_error :: "exn option"
  smtp :: smtp_world




text \<open>
  The body of the \<open>try\<close> block of \<open>create_and_send_report\<close>: the import of the sender,
  \<open>GmailSender()\<close>, the reading back of the report, and \<open>send_email\<close>, whose result is
  \<open>success\<close>. The first exception leaves the block.
\<close>

definition deliver :: "world \<Rightarrow> exn + bool" where
  "deliver W =
     (case import_error W of
        Some e \<Rightarrow> Inl e
      | None \<Rightarrow>
          (case GmailSender (environ W) of
             Inl e \<Rightarrow> Inl e
           | Inr sender \<Rightarrow>
               (case read_error W of
                  Some e \<Rightarrow> Inl e
                | None \<Rightarrow> send_email (smtp W))))"


section \<open>Example inputs\<close>

text \<open>
  A stand-in for the library parameter, used to run the model on concrete inputs: it
  parses strings of decimal digits, prints 0 as \<open>0\<close> under \<open>,.0f\<close> and as \<open>+0\<close> under
  \<open>+,.0f\<close> and any other number as a placeholder that names the format specification,
  prints a number in a text column as the placeholder \<open>{}\<close>, treats missing values in
  \<open>astype(str)\<close> as pandas 2 does, and adds floats exactly. \<open>example_lib3\<close> treats
  missing values as pandas 3 does.
\<close>

definition example_parse :: "string \<Rightarrow> rat option" where
  "example_parse s =
     (if digits_ok s \<and> CHR ''_'' \<notin> set s then Some (of_nat (digits_value s)) else None)"

definition exact_sum :: "cell list \<Rightarrow> rat" where
  "exact_sum cs =
     sum_list (List.map_filter
       (\<lambda>c. case c of Num r \<Rightarrow> Some r | PyInt i \<Rightarrow> Some (of_int i) | Str s \<Rightarrow> example_parse s
              | _ \<Rightarrow> None) cs)"

definition example_lib :: pylib where
  "example_lib =
     \<lparr>parse_str = example_parse,
      str_cell = (\<lambda>c x. case x of NaN \<Rightarrow> Some ''nan'' | PyNone \<Rightarrow> Some ''None'' | _ \<Rightarrow> Some ''{}''),
      format = (\<lambda>spec r. if r = 0 \<and> spec = '',.0f'' then ''0''
                          else if r = 0 \<and> spec = ''+,.0f'' then ''+0''
                          else ''{:'' @ spec @ ''}''),
      lib_sum = (\<lambda>all cs. exact_sum cs)\<rparr>"

definition example_lib3 :: pylib where
  "example_lib3 =
     example_lib\<lparr>str_cell := (\<lambda>c x. case x of NaN \<Rightarrow> None | PyNone \<Rightarrow> None | _ \<Rightarrow> Some ''{}'')\<rparr>"



definition ex_prices :: dataframe where
  "ex_prices = DataFrame [[(''avgPrice'', Num 0.63)], [(''avgPrice'', Num 0.80)], [(''avgPrice'', Num 0.45)]]"

definition ex_cents :: dataframe where
  "ex_cents = DataFrame [[(''avgPrice'', Num 63)], [(''avgPrice'', Num 80)], [(''avgPrice'', Num 45)]]"

definition ex_values :: dataframe where
  "ex_values = DataFrame [[(''currentValue'', Num 10)], [(''currentValue'', Num 500)], [(''currentValue'', Num 1)]]"

definition ex_filter :: dataframe where
  "ex_filter =
     DataFrame [[(''title'', Str ''A''), (''currentValue'', Num 0)],
                [(''title'', Str ''B'')],
                [(''title'', Str ''C''), (''currentValue'', Str ''n/a'')],
                [(''title'', Str ''D''), (''currentValue'', Num 150.25)],
                [(''title'', Str ''E''), (''currentValue'', Num (- 3))]]"

definition ex_no_value :: dataframe where
  "ex_no_value = DataFrame [[(''title'', Str ''A'')]]"





definition ex_pnl_only :: dataframe where
  "ex_pnl_only = DataFrame [[(''title'', Str ''A''), (''cashPnl'', PyInt 10)],
                            [(''title'', Str ''B''), (''cashPnl'', PyInt 5)]]"

definition ex_sides :: dataframe where
  "ex_sides = DataFrame [[(''title'', Str ''A''), (''outcome'', Str ''Yes'')], [(''title'', Str ''B'')]]"

definition ex_sides_null :: dataframe where
  "ex_sides_null =
     DataFrame [[(''title'', Str ''A''), (''outcome'', Str ''Yes'')],
                [(''title'', Str ''B''), (''outcome'', PyNone)]]"

definition ex_row :: display_row where
  "ex_row = \<lparr>MARKET = ''m'', AVG = ''a'', CURRENT = ''c'', VALUE = ''v''\<rparr>"

definition ex_rows12 :: "display_row list" where
  "ex_rows12 = [ex_row, ex_row, ex_row, ex_row, ex_row, ex_row,
                ex_row, ex_row, ex_row, ex_row, ex_row, ex_row]"




section \<open>Rules for evaluating the model on concrete inputs\<close>

lemmas col_defs = title_col_def slug_col_def logo_col_def side_col_def size_col_def
  avg_price_col_def cur_price_col_def value_col_def cash_pnl_col_def pct_pnl_col_def

lemmas frame_defs = DataFrame_def has_col_def column_def numeric_column_def col_defs

lemmas filter_defs = filter_sort_def sort_values_desc_def coerce_value_def value_positive_def
  positive_value_def is_num_def num_of_def


lemma dropna_Nil [simp]: "dropna [] = []"
  by (simp add: dropna_def map_filter_simps)

lemma dropna_Cons_None [simp]: "dropna (None # xs) = dropna xs"
  by (simp add: dropna_def map_filter_simps)

lemma dropna_Cons_Some [simp]: "dropna (Some v # xs) = v # dropna xs"
  by (simp add: dropna_def map_filter_simps)

lemma dropna_replicate_None [simp]: "dropna (replicate n None) = []"
  by (induction n) simp_all

lemma dropna_map_Some [simp]: "dropna (map (\<lambda>r. Some (f r)) rs) = map f rs"
  by (induction rs) simp_all

section \<open>Properties of the data normalizer\<close>


lemma dropna_empty_map:
  "dropna col = [] \<Longrightarrow> map (map_option f) col = col"
  by (induction col rule: first_parsed.induct) simp_all

lemma map_map_option_ident: "map (map_option (\<lambda>x. x)) col = col"
  by (induction col) (simp_all add: option.map_ident)


lemma length_to_cents: "length (to_cents L df c) = length (df_rows df)"
  by (simp add: to_cents_def nan_series_def numeric_column_def column_def Let_def)


lemma to_cents_map:
  "has_col df c \<Longrightarrow>
   to_cents L df c =
     map (map_option (\<lambda>x. x * (if dropna (numeric_column L df c) \<noteq> []
                                   \<and> median (dropna (numeric_column L df c)) \<le> 1.5
                                then 100 else 1)))
       (numeric_column L df c)"
  by (simp add: to_cents_def Let_def map_map_option_ident)

lemma median_le:
  assumes "xs \<noteq> []" "\<forall>v \<in> set xs. v \<le> c"
  shows "median xs \<le> c"
proof -
  let ?s = "sort xs"
  let ?n = "length ?s"
  have n: "0 < ?n" using assms(1) by simp
  have le: "\<And>i. i < ?n \<Longrightarrow> ?s ! i \<le> c"
  proof -
    fix i assume "i < ?n"
    then have "?s ! i \<in> set ?s" by (rule nth_mem)
    then show "?s ! i \<le> c" using assms(2) by simp
  qed
  have a: "?s ! (?n div 2) \<le> c" using n by (intro le) simp
  have "?n div 2 - 1 < ?n" using n by (simp add: less_imp_diff_less)
  then have b: "?s ! (?n div 2 - 1) \<le> c" by (rule le)
  show ?thesis using a b by (simp add: median_def Let_def)
qed

lemma median_gt:
  assumes "xs \<noteq> []" "\<forall>v \<in> set xs. v > c"
  shows "median xs > c"
proof -
  let ?s = "sort xs"
  let ?n = "length ?s"
  have n: "0 < ?n" using assms(1) by simp
  have gt: "\<And>i. i < ?n \<Longrightarrow> ?s ! i > c"
  proof -
    fix i assume "i < ?n"
    then have "?s ! i \<in> set ?s" by (rule nth_mem)
    then show "?s ! i > c" using assms(2) by simp
  qed
  have a: "?s ! (?n div 2) > c" using n by (intro gt) simp
  have "?n div 2 - 1 < ?n" using n by (simp add: less_imp_diff_less)
  then have b: "?s ! (?n div 2 - 1) > c" by (rule gt)
  show ?thesis using a b by (simp add: median_def Let_def)
qed



text \<open>
  C2. \<open>_to_cents\<close> returns one optional number per row of the frame. When the frame has
  the column, every entry is the parse of its cell multiplied by one factor for the
  whole column: 100 when some cell parses and the median of the parsed values is at
  most 1.5, and 1 otherwise. In particular a column whose parsed values are all at most
  1.5 is multiplied by 100, and a column whose parsed values all exceed 1.5 is returned
  as parsed.
\<close>

theorem to_cents_median_scale:
  "length (to_cents L df c) = length (df_rows df) \<and>
   (has_col df c \<longrightarrow>
      to_cents L df c =
        map (map_option (\<lambda>x. x * (if dropna (numeric_column L df c) \<noteq> []
                                      \<and> median (dropna (numeric_column L df c)) \<le> 1.5
                                   then 100 else 1)))
            (numeric_column L df c)) \<and>
   (has_col df c \<and> (\<forall>v \<in> set (dropna (numeric_column L df c)). v \<le> 1.5) \<longrightarrow>
      to_cents L df c = map (map_option (\<lambda>x. x * 100)) (numeric_column L df c)) \<and>
   (has_col df c \<and> (\<forall>v \<in> set (dropna (numeric_column L df c)). v > 1.5) \<longrightarrow>
      to_cents L df c = numeric_column L df c)"
proof (intro conjI impI)
  show "length (to_cents L df c) = length (df_rows df)" by (rule length_to_cents)
next
  assume "has_col df c"
  then show "to_cents L df c =
        map (map_option (\<lambda>x. x * (if dropna (numeric_column L df c) \<noteq> []
                                      \<and> median (dropna (numeric_column L df c)) \<le> 1.5
                                   then 100 else 1)))
            (numeric_column L df c)" by (rule to_cents_map)
next
  assume a: "has_col df c \<and> (\<forall>v \<in> set (dropna (numeric_column L df c)). v \<le> 1.5)"
  let ?col = "numeric_column L df c"
  show "to_cents L df c = map (map_option (\<lambda>x. x * 100)) ?col"
  proof (cases "dropna ?col = []")
    case True
    then have "map (map_option (\<lambda>x. x * 100)) ?col = ?col" by (rule dropna_empty_map)
    then show ?thesis using a True by (simp add: to_cents_def)
  next
    case False
    then have "median (dropna ?col) \<le> 1.5" using a by (intro median_le) simp_all
    then show ?thesis using a False by (simp add: to_cents_def)
  qed
next
  assume a: "has_col df c \<and> (\<forall>v \<in> set (dropna (numeric_column L df c)). v > 1.5)"
  let ?col = "numeric_column L df c"
  show "to_cents L df c = ?col"
  proof (cases "dropna ?col = []")
    case True
    then show ?thesis using a by (simp add: to_cents_def)
  next
    case False
    then have "median (dropna ?col) > 1.5" using a by (intro median_gt) simp_all
    then show ?thesis using a False by (simp add: to_cents_def)
  qed
qed

theorem to_cents_median_scale_witness:
  "has_col ex_prices avg_price_col \<and>
   set (dropna (numeric_column example_lib ex_prices avg_price_col)) = {0.63, 0.80, 0.45} \<and>
   to_cents example_lib ex_prices avg_price_col = [Some 63, Some 80, Some 45] \<and>
   has_col ex_cents avg_price_col \<and>
   set (dropna (numeric_column example_lib ex_cents avg_price_col)) = {63, 80, 45} \<and>
   to_cents example_lib ex_cents avg_price_col = [Some 63, Some 80, Some 45]"
proof -
  have h1: "has_col ex_prices avg_price_col"
    by (simp add: has_col_def ex_prices_def DataFrame_def col_defs)
  have h2: "has_col ex_cents avg_price_col"
    by (simp add: has_col_def ex_cents_def DataFrame_def col_defs)
  have c1: "numeric_column example_lib ex_prices avg_price_col = [Some 0.63, Some 0.80, Some 0.45]"
    by (simp add: numeric_column_def column_def ex_prices_def DataFrame_def col_defs)
  have c2: "numeric_column example_lib ex_cents avg_price_col = [Some 63, Some 80, Some 45]"
    by (simp add: numeric_column_def column_def ex_cents_def DataFrame_def col_defs)
  have b1: "\<forall>v \<in> set (dropna (numeric_column example_lib ex_prices avg_price_col)). v \<le> 1.5"
    by (simp add: c1)
  have b2: "\<forall>v \<in> set (dropna (numeric_column example_lib ex_cents avg_price_col)). v > 1.5"
    by (simp add: c2)
  from to_cents_median_scale [of example_lib ex_prices avg_price_col] h1 b1
  have "to_cents example_lib ex_prices avg_price_col
        = map (map_option (\<lambda>x. x * 100)) (numeric_column example_lib ex_prices avg_price_col)"
    by blast
  then have r1: "to_cents example_lib ex_prices avg_price_col = [Some 63, Some 80, Some 45]"
    by (simp add: c1)
  from to_cents_median_scale [of example_lib ex_cents avg_price_col] h2 b2
  have "to_cents example_lib ex_cents avg_price_col = numeric_column example_lib ex_cents avg_price_col"
    by blast
  then have r2: "to_cents example_lib ex_cents avg_price_col = [Some 63, Some 80, Some 45]"
    by (simp add: c2)
  show ?thesis using h1 h2 r1 r2 by (simp add: c1 c2)
qed

section \<open>Properties of filtering and sorting\<close>

lemma has_col_filter_sort [simp]: "has_col (filter_sort L df) c = has_col df c"
  by (simp add: filter_sort_def has_col_def)

lemma coerce_value_other [simp]: "c \<noteq> value_col \<Longrightarrow> coerce_value L r c = r c"
  by (simp add: coerce_value_def)

lemma value_positive_coerce [simp]: "value_positive (coerce_value L r) = positive_value L r"
  by (simp add: value_positive_def positive_value_def coerce_value_def split: option.split)

lemma value_positive_is_num: "value_positive r \<Longrightarrow> is_num (r value_col)"
  by (simp add: value_positive_def is_num_def split: cell.splits)

lemma sort_values_desc_all_num:
  assumes "\<forall>r \<in> set rs. is_num (r c)"
  shows "sort_values_desc c rs = sort_key (\<lambda>r. - num_of (r c)) rs"
proof -
  have "filter (\<lambda>r. is_num (r c)) rs = rs" using assms by (simp add: filter_id_conv)
  moreover have "filter (\<lambda>r. \<not> is_num (r c)) rs = []" using assms by (simp add: filter_empty_conv)
  ultimately show ?thesis by (simp add: sort_values_desc_def)
qed

lemma rows_filter_sort:
  "has_col df value_col \<Longrightarrow>
   df_rows (filter_sort L df) =
     sort_key (\<lambda>r. - num_of (r value_col)) (map (coerce_value L) (filter (positive_value L) (df_rows df)))"
proof -
  assume h: "has_col df value_col"
  have eq: "filter value_positive (map (coerce_value L) (df_rows df))
        = map (coerce_value L) (filter (positive_value L) (df_rows df))"
    by (simp add: filter_map o_def)
  have "\<forall>r \<in> set (filter value_positive (map (coerce_value L) (df_rows df))). is_num (r value_col)"
    by (auto dest: value_positive_is_num)
  then show ?thesis using h eq by (simp add: filter_sort_def sort_values_desc_all_num)
qed

lemma mset_rows_filter_sort:
  "has_col df value_col \<Longrightarrow>
   mset (df_rows (filter_sort L df)) = mset (map (coerce_value L) (filter (positive_value L) (df_rows df)))"
  by (simp add: rows_filter_sort)

lemma rows_filter_sort_no_col:
  "\<not> has_col df value_col \<Longrightarrow> filter_sort L df = df"
  by (simp add: filter_sort_def)

lemma positive_value_coerce [simp]: "positive_value L (coerce_value L r) = positive_value L r"
  by (simp add: positive_value_def coerce_value_def split: option.split)

lemma to_numeric_coerce:
  "to_numeric L (coerce_value L r value_col) = to_numeric L (r value_col)"
  by (simp add: coerce_value_def split: option.split)

lemma to_numeric_coerce_any [simp]:
  "to_numeric L (coerce_value L r c) = to_numeric L (r c)"
  by (cases "c = value_col") (simp_all add: to_numeric_coerce)

lemma out_rows_positive:
  assumes "has_col df value_col" "r \<in> set (df_rows (filter_sort L df))"
  shows "positive_value L r"
proof -
  from assms have "r \<in># mset (map (coerce_value L) (filter (positive_value L) (df_rows df)))"
    using mset_rows_filter_sort [of df L] by (metis set_mset_mset)
  then show ?thesis by auto
qed

lemma sorted_desc_out:
  "sorted_wrt (\<lambda>a b. a \<ge> b) (map (\<lambda>r. num_of (r c)) (sort_key (\<lambda>r. - num_of (r c)) rs))"
proof -
  have "sorted (map (\<lambda>r. - num_of (r c)) (sort_key (\<lambda>r. - num_of (r c)) rs))"
    by (rule sorted_sort_key)
  then show ?thesis by (simp add: sorted_wrt_map)
qed

lemma value_series_out:
  assumes "has_col df value_col"
  shows "value_series L (filter_sort L df) =
         map (\<lambda>r. Some (num_of (r value_col))) (df_rows (filter_sort L df))"
proof -
  have "\<And>r. r \<in> set (df_rows (filter_sort L df)) \<Longrightarrow> to_numeric L (r value_col) = Some (num_of (r value_col))"
  proof -
    fix r assume "r \<in> set (df_rows (filter_sort L df))"
    then have "r \<in> set (map (coerce_value L) (filter (positive_value L) (df_rows df)))"
      using mset_rows_filter_sort [OF assms, of L] by (metis set_mset_mset)
    then obtain r0 where "r = coerce_value L r0" "positive_value L r0" by auto
    then show "to_numeric L (r value_col) = Some (num_of (r value_col))"
      by (auto simp: coerce_value_def positive_value_def num_of_def split: option.splits)
  qed
  then show ?thesis using assms
    by (simp add: value_series_def numeric_column_def column_def)
qed

text \<open>
  C3, for a frame that has the \<open>currentValue\<close> column. The rows after filtering are, up
  to order, the input rows whose value parses to a number greater than 0, with the value
  cell replaced by its parse. So an input row is among the output rows exactly when its
  value is positive, a row whose value is absent, unparseable or not positive is
  dropped, and every output row carries a positive value. A frame without the column
  keeps all its rows.
\<close>

theorem filter_keeps_positive_values:
  "(has_col df value_col \<longrightarrow>
      mset (df_rows (filter_sort L df))
        = mset (map (coerce_value L) (filter (positive_value L) (df_rows df))) \<and>
      (\<forall>r \<in> set (df_rows df).
         (coerce_value L r \<in> set (df_rows (filter_sort L df))) = positive_value L r) \<and>
      (\<forall>r \<in> set (df_rows (filter_sort L df)). \<exists>v. to_numeric L (r value_col) = Some v \<and> 0 < v)) \<and>
   (\<forall>r. positive_value L r = (\<exists>v. to_numeric L (r value_col) = Some v \<and> 0 < v)) \<and>
   (\<not> has_col df value_col \<longrightarrow> df_rows (filter_sort L df) = df_rows df)"
proof (intro conjI impI ballI allI)
  assume h: "has_col df value_col"
  show "mset (df_rows (filter_sort L df))
        = mset (map (coerce_value L) (filter (positive_value L) (df_rows df)))"
    by (rule mset_rows_filter_sort [OF h])
next
  fix r assume h: "has_col df value_col" and r: "r \<in> set (df_rows df)"
  show "(coerce_value L r \<in> set (df_rows (filter_sort L df))) = positive_value L r"
  proof
    assume "coerce_value L r \<in> set (df_rows (filter_sort L df))"
    then have "positive_value L (coerce_value L r)" by (rule out_rows_positive [OF h])
    then show "positive_value L r" by simp
  next
    assume "positive_value L r"
    with r have "coerce_value L r \<in> set (map (coerce_value L) (filter (positive_value L) (df_rows df)))"
      by simp
    then show "coerce_value L r \<in> set (df_rows (filter_sort L df))"
      using mset_rows_filter_sort [OF h, of L] by (metis set_mset_mset)
  qed
next
  fix r assume h: "has_col df value_col" and r: "r \<in> set (df_rows (filter_sort L df))"
  have "positive_value L r" by (rule out_rows_positive [OF h r])
  then show "\<exists>v. to_numeric L (r value_col) = Some v \<and> 0 < v"
    by (simp add: positive_value_def split: option.splits)
next
  fix r
  show "positive_value L r = (\<exists>v. to_numeric L (r value_col) = Some v \<and> 0 < v)"
    by (simp add: positive_value_def split: option.splits)
next
  assume "\<not> has_col df value_col"
  then show "df_rows (filter_sort L df) = df_rows df"
    by (simp add: rows_filter_sort_no_col)
qed

theorem filter_keeps_positive_values_witness:
  "has_col ex_filter value_col \<and>
   length (df_rows (filter_sort example_lib ex_filter)) = 1 \<and>
   map (\<lambda>r. (r ''title'', r ''currentValue'')) (df_rows (filter_sort example_lib ex_filter))
     = [(Str ''D'', Num 150.25)] \<and>
   \<not> has_col ex_no_value value_col \<and>
   df_rows (filter_sort example_lib ex_no_value) = df_rows ex_no_value"
proof -
  have g: "\<not> has_col ex_no_value value_col"
    by (simp add: ex_no_value_def frame_defs)
  from filter_keeps_positive_values [of ex_no_value example_lib] g
  have k: "df_rows (filter_sort example_lib ex_no_value) = df_rows ex_no_value"
    by blast
  have h: "has_col ex_filter value_col"
    by (simp add: ex_filter_def frame_defs)
  from filter_keeps_positive_values [of ex_filter example_lib] h
  have "mset (df_rows (filter_sort example_lib ex_filter))
        = mset (map (coerce_value example_lib) (filter (positive_value example_lib) (df_rows ex_filter)))"
    by blast
  then have "length (df_rows (filter_sort example_lib ex_filter))
        = length (map (coerce_value example_lib) (filter (positive_value example_lib) (df_rows ex_filter)))"
    by (rule mset_eq_length)
  then have l: "length (df_rows (filter_sort example_lib ex_filter))
        = length (filter (positive_value example_lib) (df_rows ex_filter))"
    by simp
  have "length (filter (positive_value example_lib) (df_rows ex_filter)) = 1"
    by (simp add: ex_filter_def frame_defs filter_defs example_lib_def example_parse_def digit_val_def)
  with l have l1: "length (df_rows (filter_sort example_lib ex_filter)) = 1" by simp
  have m: "map (\<lambda>r. (r ''title'', r ''currentValue'')) (df_rows (filter_sort example_lib ex_filter))
     = [(Str ''D'', Num 150.25)]"
    by (simp add: ex_filter_def frame_defs filter_defs example_lib_def example_parse_def digit_val_def)
  from h l1 m g k show ?thesis by simp
qed

text \<open>
  A frame without the value column: its record, whose \<open>currentValue\<close> is absent, is kept.
\<close>

theorem absent_value_kept_counterexample:
  "\<not> has_col ex_no_value value_col \<and>
   length (df_rows (filter_sort example_lib ex_no_value)) = 1 \<and>
   to_numeric example_lib ((df_rows (filter_sort example_lib ex_no_value) ! 0) value_col) = None \<and>
   n_positions (df_to_pretty_html_marketstyle example_lib ex_no_value) = 1"
  by (simp add: ex_no_value_def frame_defs filter_defs df_to_pretty_html_marketstyle_def Let_def)

text \<open>
  C4. For every input frame, the values of the rows left after filtering and sorting,
  read in output order, are in descending order; when the frame has the value column,
  none of them is absent.
\<close>

theorem rows_sorted_by_value_descending:
  "sorted_wrt (\<lambda>a b. a \<ge> b) (dropna (value_series L (filter_sort L df))) \<and>
   (has_col df value_col \<longrightarrow> None \<notin> set (value_series L (filter_sort L df)))"
proof (cases "has_col df value_col")
  case True
  have "dropna (value_series L (filter_sort L df)) = map (\<lambda>r. num_of (r value_col)) (df_rows (filter_sort L df))"
    by (simp add: value_series_out [OF True])
  then have "sorted_wrt (\<lambda>a b. a \<ge> b) (dropna (value_series L (filter_sort L df)))"
    using sorted_desc_out by (simp add: rows_filter_sort [OF True])
  moreover have "None \<notin> set (value_series L (filter_sort L df))"
    by (auto simp: value_series_out [OF True])
  ultimately show ?thesis by simp
next
  case False
  then show ?thesis by (simp add: value_series_def nan_series_def)
qed

theorem rows_sorted_by_value_descending_witness:
  "has_col ex_values value_col \<and>
   value_series example_lib (filter_sort example_lib ex_values) = [Some 500, Some 10, Some 1] \<and>
   sorted_wrt (\<lambda>a b. a \<ge> b) (dropna (value_series example_lib (filter_sort example_lib ex_values))) \<and>
   None \<notin> set (value_series example_lib (filter_sort example_lib ex_values))"
proof -
  have h: "has_col ex_values value_col"
    by (simp add: ex_values_def frame_defs)
  have v: "value_series example_lib (filter_sort example_lib ex_values) = [Some 500, Some 10, Some 1]"
    by (simp add: ex_values_def frame_defs filter_defs value_series_def)
  from rows_sorted_by_value_descending [of example_lib ex_values] h v show ?thesis by simp
qed

section \<open>Properties of the table body\<close>

lemma div5_step:
  assumes "0 < (n::nat)"
  shows "(n - 1) div 5 + (if n mod 5 = 0 then 1 else 0) = n div 5"
proof -
  define q where "q = n div 5"
  define r where "r = n mod 5"
  have n: "n = 5 * q + r" and r: "r < 5" by (simp_all add: q_def r_def)
  show ?thesis
  proof (cases "r = 0")
    case True
    then obtain k where k: "q = Suc k" using assms n by (cases q) simp_all
    have "n - 1 = 5 * k + 4" using n True k by simp
    then have "(n - 1) div 5 = k" by simp
    then show ?thesis using True k by (simp add: q_def [symmetric] r_def [symmetric])
  next
    case False
    then obtain s where s: "r = Suc s" by (cases r) simp_all
    have "n - 1 = 5 * q + s" and "s < 5" using n s r by simp_all
    then have "(n - 1) div 5 = q" by simp
    then show ?thesis using False by (simp add: q_def [symmetric] r_def [symmetric])
  qed
qed

lemma row_pos_bound: "i < (n::nat) \<Longrightarrow> i + i div 5 < n + (n - 1) div 5"
proof -
  assume "i < n"
  then have "i \<le> n - 1" by simp
  then have "i div 5 \<le> (n - 1) div 5" by (rule div_le_mono)
  with \<open>i < n\<close> show ?thesis by linarith
qed

lemma position_row:
  assumes "p mod 6 \<noteq> 5"
  shows "(p - p div 6) + (p - p div 6) div 5 = (p::nat)"
proof -
  define a where "a = p div 6"
  define b where "b = p mod 6"
  have p: "p = 6 * a + b" by (simp add: a_def b_def)
  have "b < 6" by (simp add: b_def)
  with assms have b: "b < 5" by (simp add: b_def)
  have "p - a = 5 * a + b" using p by simp
  then have "(p - a) div 5 = a" using b by simp
  then show ?thesis using p by (simp add: a_def [symmetric])
qed

lemma position_sep:
  assumes "p mod 6 = 5"
  shows "5 * (p div 6 + 1) + (5 * (p div 6 + 1)) div 5 - 1 = (p::nat)"
proof -
  have "p = 6 * (p div 6) + p mod 6" by simp
  with assms have "p = 6 * (p div 6) + 5" by simp
  then show ?thesis by simp
qed

lemma sep_suc:
  assumes "p mod 6 = 5"
  shows "Suc p = 5 * (p div 6 + 1) + (5 * (p div 6 + 1)) div 5"
proof -
  have "p = 6 * (p div 6) + p mod 6" by simp
  with assms have "p = 6 * (p div 6) + 5" by simp
  then show ?thesis by simp
qed

lemma sep_pos_mod:
  assumes "0 < i" "i mod 5 = 0" "Suc p = i + i div 5"
  shows "p mod 6 = 5"
proof -
  from assms(2) obtain m where m: "i = 5 * m" by auto
  with assms(1) obtain k where k: "m = Suc k" by (cases m) simp_all
  have "p = 6 * k + 5" using assms(3) m k by simp
  then show ?thesis by simp
qed

lemma position_cases:
  assumes "(p::nat) < n + (n - 1) div 5"
  shows "(p mod 6 = 5 \<and> 5 * (p div 6 + 1) < n) \<or> (p mod 6 \<noteq> 5 \<and> p - p div 6 < n)"
proof -
  define a where "a = p div 6"
  define b where "b = p mod 6"
  have p: "p = 6 * a + b" by (simp add: a_def b_def)
  have b6: "b < 6" by (simp add: b_def)
  have n: "0 < n" using assms by (cases n) simp_all
  have key: "5 * a + b < n"
  proof (rule ccontr)
    assume "\<not> 5 * a + b < n"
    then have "n - 1 \<le> 5 * a + 4" using b6 by simp
    then have "(n - 1) div 5 \<le> (5 * a + 4) div 5" by (rule div_le_mono)
    then have "(n - 1) div 5 \<le> a" by simp
    with \<open>\<not> 5 * a + b < n\<close> have "n + (n - 1) div 5 \<le> p" using p by simp
    with assms show False by simp
  qed
  show ?thesis
  proof (cases "b = 5")
    case True
    with key show ?thesis by (simp add: a_def [symmetric] b_def [symmetric])
  next
    case False
    have "p - a = 5 * a + b" using p by simp
    with key False show ?thesis by (simp add: a_def [symmetric] b_def [symmetric])
  qed
qed

lemma rows_html_Nil [simp]: "rows_html [] = []"
  by (simp add: rows_html_def)

lemma rows_html_snoc:
  "rows_html (d @ [r]) =
     (if length d > 0 \<and> length d mod 5 = 0 then rows_html d @ [separator_row] else rows_html d)
     @ [row_html r]"
  by (simp add: rows_html_def enumerate_append_eq rows_html_step_def)

lemma length_rows_html: "length (rows_html d) = length d + (length d - 1) div 5"
proof (induction d rule: rev_induct)
  case Nil
  show ?case by simp
next
  case (snoc r d)
  show ?case
  proof (cases "length d = 0")
    case True
    then show ?thesis by (simp add: rows_html_def rows_html_step_def)
  next
    case False
    then have pos: "0 < length d" by simp
    show ?thesis using snoc div5_step [OF pos]
      by (simp add: rows_html_snoc split: if_splits)
  qed
qed

lemma rows_html_row: "i < length d \<Longrightarrow> rows_html d ! (i + i div 5) = row_html (d ! i)"
proof (induction d rule: rev_induct)
  case Nil
  then show ?case by simp
next
  case (snoc r d)
  let ?n = "length d"
  let ?base = "(if ?n > 0 \<and> ?n mod 5 = 0 then rows_html d @ [separator_row] else rows_html d)"
  show ?case
  proof (cases "i < ?n")
    case True
    have "i + i div 5 < length (rows_html d)"
      using row_pos_bound [OF True] by (simp add: length_rows_html)
    then have "rows_html (d @ [r]) ! (i + i div 5) = rows_html d ! (i + i div 5)"
      by (simp add: rows_html_snoc nth_append)
    then show ?thesis using snoc.IH [OF True] True by (simp add: nth_append)
  next
    case False
    then have i: "i = ?n" using snoc.prems by simp
    have len: "length ?base = ?n + ?n div 5"
    proof (cases "?n = 0")
      case True
      then show ?thesis by simp
    next
      case False
      then have pos: "0 < ?n" by simp
      show ?thesis using div5_step [OF pos] by (simp add: length_rows_html split: if_splits)
    qed
    have "rows_html (d @ [r]) = ?base @ [row_html r]" by (simp add: rows_html_snoc)
    then have "rows_html (d @ [r]) ! (?n + ?n div 5) = row_html r"
      using len by (metis nth_append_length)
    then show ?thesis using i by simp
  qed
qed

lemma rows_html_sep:
  "i < length d \<Longrightarrow> 0 < i \<Longrightarrow> i mod 5 = 0 \<Longrightarrow> rows_html d ! (i + i div 5 - 1) = separator_row"
proof (induction d rule: rev_induct)
  case Nil
  then show ?case by simp
next
  case (snoc r d)
  let ?n = "length d"
  show ?case
  proof (cases "i < ?n")
    case True
    have "i + i div 5 < length (rows_html d)"
      using row_pos_bound [OF True] by (simp add: length_rows_html)
    then have "i + i div 5 - 1 < length (rows_html d)" by simp
    then have "rows_html (d @ [r]) ! (i + i div 5 - 1) = rows_html d ! (i + i div 5 - 1)"
      by (simp add: rows_html_snoc nth_append)
    then show ?thesis using snoc.IH [OF True] snoc.prems by simp
  next
    case False
    then have i: "i = ?n" using snoc.prems by simp
    then have pos: "0 < ?n" and m: "?n mod 5 = 0" using snoc.prems by simp_all
    have len: "length (rows_html d) = ?n + ?n div 5 - 1"
      using div5_step [OF pos] m by (simp add: length_rows_html)
    have "rows_html (d @ [r]) = rows_html d @ [separator_row, row_html r]"
      using pos m by (simp add: rows_html_snoc)
    then have "rows_html (d @ [r]) ! (?n + ?n div 5 - 1) = separator_row"
      using len by (metis nth_append_length)
    then show ?thesis using i by simp
  qed
qed

lemma row_html_not_separator: "row_html r \<noteq> separator_row"
  by (simp add: row_html_def separator_row_def)

lemma rows_html_nth:
  assumes "p < length (rows_html d)"
  shows "rows_html d ! p =
         (if p mod 6 = 5 then separator_row else row_html (d ! (p - p div 6)))"
proof -
  from assms have b: "p < length d + (length d - 1) div 5" by (simp add: length_rows_html)
  show ?thesis
  proof (cases "p mod 6 = 5")
    case True
    with position_cases [OF b] have i: "5 * (p div 6 + 1) < length d" by simp
    have "rows_html d ! (5 * (p div 6 + 1) + (5 * (p div 6 + 1)) div 5 - 1) = separator_row"
      by (rule rows_html_sep [OF i]) simp_all
    then show ?thesis using True position_sep [OF True] by simp
  next
    case False
    with position_cases [OF b] have i: "p - p div 6 < length d" by simp
    from rows_html_row [OF i] position_row [OF False] False show ?thesis by simp
  qed
qed

text \<open>
  C5. For \<open>n\<close> display rows the table body has \<open>n + (n - 1) div 5\<close> rows; the data row
  with index \<open>i\<close> stands at position \<open>i + i div 5\<close>; and a position holds a separator
  exactly when the next position holds a data row whose index is a positive multiple
  of 5. So a separator stands immediately before each of the rows 5, 10, 15, ..., never
  before row 0, and nowhere else. The table body of the report is built in this way from
  one display row per record left after filtering.
\<close>

theorem separator_placement:
  "length (rows_html d) = length d + (length d - 1) div 5 \<and>
   (\<forall>i < length d. rows_html d ! (i + i div 5) = row_html (d ! i)) \<and>
   (\<forall>p < length (rows_html d).
      (rows_html d ! p = separator_row) =
      (\<exists>i < length d. 0 < i \<and> i mod 5 = 0 \<and> Suc p = i + i div 5)) \<and>
   table_rows (df_to_pretty_html_marketstyle L df) = rows_html (display L (filter_sort L df)) \<and>
   length (display L (filter_sort L df)) = length (df_rows (filter_sort L df))"
proof (intro conjI allI impI)
  show "length (rows_html d) = length d + (length d - 1) div 5" by (rule length_rows_html)
next
  fix i assume "i < length d"
  then show "rows_html d ! (i + i div 5) = row_html (d ! i)" by (rule rows_html_row)
next
  fix p assume p: "p < length (rows_html d)"
  then have b: "p < length d + (length d - 1) div 5" by (simp only: length_rows_html)
  show "(rows_html d ! p = separator_row) =
        (\<exists>i < length d. 0 < i \<and> i mod 5 = 0 \<and> Suc p = i + i div 5)"
  proof (cases "p mod 6 = 5")
    case True
    have i: "5 * (p div 6 + 1) < length d"
      using position_cases [OF b] True by blast
    have pos: "0 < 5 * (p div 6 + 1)" by simp
    have m: "5 * (p div 6 + 1) mod 5 = 0" by simp
    have s: "Suc p = 5 * (p div 6 + 1) + (5 * (p div 6 + 1)) div 5"
      by (rule sep_suc [OF True])
    have rhs: "\<exists>i < length d. 0 < i \<and> i mod 5 = 0 \<and> Suc p = i + i div 5"
    proof (intro exI conjI)
      show "5 * (p div 6 + 1) < length d" by (rule i)
      show "0 < 5 * (p div 6 + 1)" by (rule pos)
      show "5 * (p div 6 + 1) mod 5 = 0" by (rule m)
      show "Suc p = 5 * (p div 6 + 1) + (5 * (p div 6 + 1)) div 5" by (rule s)
    qed
    have lhs: "rows_html d ! p = separator_row"
      using rows_html_nth [OF p] True by (simp only: simp_thms if_True)
    show ?thesis
    proof
      assume "rows_html d ! p = separator_row"
      show "\<exists>i < length d. 0 < i \<and> i mod 5 = 0 \<and> Suc p = i + i div 5" by (rule rhs)
    next
      assume "\<exists>i < length d. 0 < i \<and> i mod 5 = 0 \<and> Suc p = i + i div 5"
      show "rows_html d ! p = separator_row" by (rule lhs)
    qed
  next
    case False
    have nrhs: "\<not> (\<exists>i < length d. 0 < i \<and> i mod 5 = 0 \<and> Suc p = i + i div 5)"
    proof
      assume "\<exists>i < length d. 0 < i \<and> i mod 5 = 0 \<and> Suc p = i + i div 5"
      then obtain i where h: "i < length d \<and> 0 < i \<and> i mod 5 = 0 \<and> Suc p = i + i div 5" ..
      from h have h1: "0 < i" by (elim conjE)
      from h have h2: "i mod 5 = 0" by (elim conjE)
      from h have h3: "Suc p = i + i div 5" by (elim conjE)
      have "p mod 6 = 5" by (rule sep_pos_mod [OF h1 h2 h3])
      with False show False by contradiction
    qed
    have eq: "rows_html d ! p = row_html (d ! (p - p div 6))"
      using rows_html_nth [OF p] False by (simp only: simp_thms if_False)
    have nlhs: "rows_html d ! p \<noteq> separator_row"
      unfolding eq by (rule row_html_not_separator)
    show ?thesis
    proof
      assume "rows_html d ! p = separator_row"
      with nlhs show "\<exists>i < length d. 0 < i \<and> i mod 5 = 0 \<and> Suc p = i + i div 5"
        by contradiction
    next
      assume "\<exists>i < length d. 0 < i \<and> i mod 5 = 0 \<and> Suc p = i + i div 5"
      with nrhs show "rows_html d ! p = separator_row" by contradiction
    qed
  qed
next
  show "table_rows (df_to_pretty_html_marketstyle L df) = rows_html (display L (filter_sort L df))"
    by (simp add: df_to_pretty_html_marketstyle_def Let_def)
next
  show "length (display L (filter_sort L df)) = length (df_rows (filter_sort L df))"
    by (simp add: display_def)
qed

theorem separator_placement_witness:
  "length ex_rows12 = 12 \<and> length (rows_html ex_rows12) = 14 \<and>
   map (\<lambda>p. rows_html ex_rows12 ! p = separator_row) [0, 1, 2, 3, 4, 5, 6, 7, 8, 9, 10, 11, 12, 13]
     = [False, False, False, False, False, True, False, False, False, False, False, True, False, False] \<and>
   rows_html ex_rows12 ! (5 + 5 div 5) = row_html (ex_rows12 ! 5) \<and>
   rows_html ex_rows12 ! (10 + 10 div 5) = row_html (ex_rows12 ! 10)"
proof -
  have n: "length ex_rows12 = 12" by (simp add: ex_rows12_def)
  from separator_placement [where d = ex_rows12]
  have l: "length (rows_html ex_rows12) = length ex_rows12 + (length ex_rows12 - 1) div 5"
    and r: "\<forall>i < length ex_rows12. rows_html ex_rows12 ! (i + i div 5) = row_html (ex_rows12 ! i)"
    by blast+
  from l n have l14: "length (rows_html ex_rows12) = 14" by simp
  from r [rule_format, of 5] n
  have r5: "rows_html ex_rows12 ! (5 + 5 div 5) = row_html (ex_rows12 ! 5)" by simp
  from r [rule_format, of 10] n
  have r10: "rows_html ex_rows12 ! (10 + 10 div 5) = row_html (ex_rows12 ! 10)" by simp
  have s: "map (\<lambda>p. rows_html ex_rows12 ! p = separator_row) [0, 1, 2, 3, 4, 5, 6, 7, 8, 9, 10, 11, 12, 13]
     = [False, False, False, False, False, True, False, False, False, False, False, True, False, False]"
    by (simp add: rows_html_def rows_html_step_def ex_rows12_def ex_row_def row_html_def separator_row_def)
  from n l14 s r5 r10 show ?thesis by blast
qed

section \<open>Properties of the summary\<close>

lemma sum_dropna_map:
  "sum_list (dropna (map g rs)) = (\<Sum>r\<leftarrow>rs. case g r of Some v \<Rightarrow> v | None \<Rightarrow> 0)"
proof (induction rs)
  case Nil
  show ?case by simp
next
  case (Cons r rs)
  then show ?case by (cases "g r") simp_all
qed

lemma dropna_map_empty: "(dropna (map g rs) = []) = (\<forall>r\<in>set rs. g r = None)"
proof (induction rs)
  case Nil
  show ?case by simp
next
  case (Cons r rs)
  then show ?case by (cases "g r") simp_all
qed

lemma sum_list_mset_cong:
  fixes f :: "'a \<Rightarrow> rat"
  assumes "mset xs = mset ys"
  shows "sum_list (map f xs) = sum_list (map f ys)"
proof -
  have "mset (map f xs) = mset (map f ys)" using assms by (metis mset_map)
  then show ?thesis by (metis sum_mset_sum_list)
qed


lemma mset_out_rows:
  "mset (map (\<lambda>r. to_numeric L (r c)) (df_rows (filter_sort L df)))
   = mset (map (\<lambda>r. to_numeric L (r c)) (kept L df))"
proof (cases "has_col df value_col")
  case True
  have "mset (map (\<lambda>r. to_numeric L (r c)) (df_rows (filter_sort L df)))
        = image_mset (\<lambda>r. to_numeric L (r c)) (mset (df_rows (filter_sort L df)))"
    by simp
  also have "\<dots> = image_mset (\<lambda>r. to_numeric L (r c))
                     (mset (map (coerce_value L) (filter (positive_value L) (df_rows df))))"
    by (simp only: mset_rows_filter_sort [OF True])
  also have "\<dots> = mset (map (\<lambda>r. to_numeric L (r c)) (filter (positive_value L) (df_rows df)))"
    by (simp add: image_mset.compositionality o_def)
  finally show ?thesis using True by (simp add: kept_def)
next
  case False
  then show ?thesis by (simp add: kept_def filter_sort_def)
qed

lemma sum_out_rows:
  "sum_list (dropna (map (to_numeric L) (column (filter_sort L df) c)))
   = (\<Sum>r\<leftarrow>kept L df. case to_numeric L (r c) of Some v \<Rightarrow> v | None \<Rightarrow> 0)"
proof -
  let ?g = "\<lambda>r. to_numeric L (r c)"
  let ?h = "\<lambda>x. case x of Some v \<Rightarrow> v | None \<Rightarrow> (0::rat)"
  have "sum_list (dropna (map (to_numeric L) (column (filter_sort L df) c)))
        = sum_list (map ?h (map ?g (df_rows (filter_sort L df))))"
    by (simp add: column_def sum_dropna_map [of ?g] o_def)
  also have "\<dots> = sum_list (map ?h (map ?g (kept L df)))"
    by (rule sum_list_mset_cong) (rule mset_out_rows)
  finally show ?thesis by (simp add: o_def)
qed

lemma empty_out_rows:
  "(dropna (map (to_numeric L) (column (filter_sort L df) c)) = [])
   = (\<forall>r\<in>set (kept L df). to_numeric L (r c) = None)"
proof -
  let ?g = "\<lambda>r. to_numeric L (r c)"
  have e: "set (map ?g (df_rows (filter_sort L df))) = set (map ?g (kept L df))"
    by (rule mset_eq_setD) (rule mset_out_rows)
  have a: "(\<forall>r\<in>set rs. ?g r = None) = (\<forall>x\<in>set (map ?g rs). x = None)" for rs
    by simp
  have "(\<forall>r\<in>set (df_rows (filter_sort L df)). ?g r = None) = (\<forall>r\<in>set (kept L df). ?g r = None)"
    by (simp only: a e)
  then show ?thesis by (simp add: column_def dropna_map_empty [of ?g] o_def)
qed

lemma sum_amount_zero: "\<not> has_col df c \<Longrightarrow> (\<Sum>r\<leftarrow>rs. amount L df c r) = 0"
  by (induction rs) (simp_all add: amount_def)

lemma sum_amount_none:
  "\<forall>r\<in>set rs. to_numeric L (r c) = None \<Longrightarrow> (\<Sum>r\<leftarrow>rs. amount L df c r) = 0"
  by (induction rs) (simp_all add: amount_def)

lemma sum_amount_has_col:
  "has_col df c \<Longrightarrow>
   (\<Sum>r\<leftarrow>rs. amount L df c r) = (\<Sum>r\<leftarrow>rs. case to_numeric L (r c) of Some v \<Rightarrow> v | None \<Rightarrow> 0)"
  by (simp add: amount_def)

text \<open>The sum of a column over the output rows, in terms of the kept records.\<close>

lemma col_sum_out:
  assumes "has_col df c"
  shows "col_sum L (column df c) (column (filter_sort L df) c)
         = (if \<forall>r\<in>set (kept L df). to_numeric L (r c) = None then 0
            else if list_all int64_cell (column df c)
            then of_int (wrap64 \<lfloor>\<Sum>r\<leftarrow>kept L df. amount L df c r\<rfloor>)
            else lib_sum L (column df c) (column (filter_sort L df) c))"
  by (simp add: col_sum_def Let_def empty_out_rows sum_out_rows sum_amount_has_col [OF assms])

lemma wrap64_id: "- (2 ^ 63) \<le> x \<Longrightarrow> x < 2 ^ 63 \<Longrightarrow> wrap64 x = x"
proof -
  assume a: "- (2 ^ 63) \<le> x" "x < 2 ^ 63"
  have "0 \<le> x + 2 ^ 63" using a(1) by simp
  moreover have "x + 2 ^ 63 < 2 ^ 64" using a(2) by simp
  ultimately have "(x + 2 ^ 63) mod 2 ^ 64 = x + 2 ^ 63" by (rule mod_pos_pos_trivial)
  then show ?thesis by (simp only: wrap64_def)
qed

lemma wrap64_0: "wrap64 0 = 0"
  by (rule wrap64_id) simp_all

lemma kept_subset: "set (kept L df) \<subseteq> set (df_rows df)"
  by (auto simp: kept_def)

lemma int64_column_cell:
  assumes "int64_column df c" "r \<in> set (df_rows df)"
  shows "\<exists>i. r c = PyInt i"
proof -
  from assms have "int64_cell (r c)"
    by (auto simp: int64_column_def column_def list_all_iff)
  then show ?thesis by (cases "r c") (simp_all add: int64_cell_def)
qed

lemma sum_of_ints:
  fixes f :: "'a \<Rightarrow> rat"
  shows "\<forall>r\<in>set rs. \<exists>i::int. f r = of_int i \<Longrightarrow> \<exists>j::int. sum_list (map f rs) = of_int j"
proof (induction rs)
  case Nil
  have "sum_list (map f []) = of_int 0" by simp
  then show ?case by blast
next
  case (Cons r rs)
  then obtain i j where "f r = of_int i" "sum_list (map f rs) = of_int j" by auto
  then have "sum_list (map f (r # rs)) = of_int (i + j)" by simp
  then show ?case by blast
qed

lemma int64_column_sum:
  assumes "int64_column df c"
  shows "\<exists>j::int. (\<Sum>r\<leftarrow>kept L df. amount L df c r) = of_int j"
proof (rule sum_of_ints, rule ballI)
  fix r assume "r \<in> set (kept L df)"
  then have "r \<in> set (df_rows df)" using kept_subset by blast
  from int64_column_cell [OF assms this] obtain i where "r c = PyInt i" by blast
  moreover have "has_col df c" using assms by (simp add: int64_column_def)
  ultimately have "amount L df c r = of_int i" by (simp add: amount_def)
  then show "\<exists>i. amount L df c r = of_int i" by blast
qed

lemma int64_total:
  assumes "int64_column df c"
  shows "col_sum L (column df c) (column (filter_sort L df) c)
           = of_int (wrap64 \<lfloor>\<Sum>r\<leftarrow>kept L df. amount L df c r\<rfloor>)"
proof (cases "\<forall>r\<in>set (kept L df). to_numeric L (r c) = None")
  case True
  then have "(\<Sum>r\<leftarrow>kept L df. amount L df c r) = 0" by (rule sum_amount_none)
  then show ?thesis using assms True by (simp add: col_sum_out int64_column_def wrap64_0)
next
  case False
  have "col_sum L (column df c) (column (filter_sort L df) c)
         = (if \<forall>r\<in>set (kept L df). to_numeric L (r c) = None then 0
            else if list_all int64_cell (column df c)
            then of_int (wrap64 \<lfloor>\<Sum>r\<leftarrow>kept L df. amount L df c r\<rfloor>)
            else lib_sum L (column df c) (column (filter_sort L df) c))"
    using assms by (intro col_sum_out) (simp add: int64_column_def)
  also have "\<dots> = of_int (wrap64 \<lfloor>\<Sum>r\<leftarrow>kept L df. amount L df c r\<rfloor>)"
    using False assms by (simp only: int64_column_def if_False if_True)
  finally show ?thesis .
qed

lemma int64_total_in_range:
  assumes "int64_column df c"
    "- (2 ^ 63) \<le> (\<Sum>r\<leftarrow>kept L df. amount L df c r)" "(\<Sum>r\<leftarrow>kept L df. amount L df c r) < 2 ^ 63"
  shows "col_sum L (column df c) (column (filter_sort L df) c) = (\<Sum>r\<leftarrow>kept L df. amount L df c r)"
proof -
  from int64_column_sum [OF assms(1)] obtain j :: int
    where j: "(\<Sum>r\<leftarrow>kept L df. amount L df c r) = of_int j" by blast
  have "(of_int (- (2 ^ 63)) :: rat) \<le> of_int j" using assms(2) j by simp
  then have l: "- (2 ^ 63) \<le> j" by (simp only: of_int_le_iff)
  have "(of_int j :: rat) < of_int (2 ^ 63)" using assms(3) j by simp
  then have u: "j < 2 ^ 63" by (simp only: of_int_less_iff)
  have "wrap64 j = j" using l u by (rule wrap64_id)
  then show ?thesis using int64_total [OF assms(1), of L] j by simp
qed

lemma n_positions_report [simp]:
  "n_positions (df_to_pretty_html_marketstyle L df) = length (df_rows (filter_sort L df))"
  by (simp add: df_to_pretty_html_marketstyle_def Let_def)

lemma total_value_report:
  "total_value (df_to_pretty_html_marketstyle L df) = value_sum L df (filter_sort L df)"
  by (simp add: df_to_pretty_html_marketstyle_def Let_def)

lemma total_pnl_report:
  "total_pnl (df_to_pretty_html_marketstyle L df) = cash_sum L df (filter_sort L df)"
  by (simp add: df_to_pretty_html_marketstyle_def Let_def)



lemma table_rows_report:
  "table_rows (df_to_pretty_html_marketstyle L df) = rows_html (display L (filter_sort L df))"
  by (simp add: df_to_pretty_html_marketstyle_def Let_def)


lemma length_display [simp]: "length (display L df) = length (df_rows df)"
  by (simp add: display_def)


lemma total_pnl_col:
  "has_col df cash_pnl_col \<Longrightarrow>
   total_pnl (df_to_pretty_html_marketstyle L df)
   = col_sum L (column df cash_pnl_col) (column (filter_sort L df) cash_pnl_col)"
  by (simp add: total_pnl_report cash_sum_def)

lemma total_value_no_col:
  "\<not> has_col df value_col \<Longrightarrow> total_value (df_to_pretty_html_marketstyle L df) = 0"
  by (simp add: total_value_report value_sum_def)

lemma total_pnl_no_col:
  "\<not> has_col df cash_pnl_col \<Longrightarrow> total_pnl (df_to_pretty_html_marketstyle L df) = 0"
  by (simp add: total_pnl_report cash_sum_def)


lemma total_pnl_none:
  "\<forall>r\<in>set (kept L df). to_numeric L (r cash_pnl_col) = None \<Longrightarrow>
   total_pnl (df_to_pretty_html_marketstyle L df) = 0"
  by (cases "has_col df cash_pnl_col") (simp_all add: total_pnl_col col_sum_out total_pnl_no_col)

lemma lib_total:
  assumes "has_col df c" "\<not> int64_column df c"
    "\<exists>r\<in>set (kept L df). to_numeric L (r c) \<noteq> None"
  shows "col_sum L (column df c) (column (filter_sort L df) c)
         = lib_sum L (column df c) (column (filter_sort L df) c)"
proof -
  have a: "\<not> (\<forall>r\<in>set (kept L df). to_numeric L (r c) = None)" using assms(3) by auto
  have b: "\<not> list_all int64_cell (column df c)" using assms(1,2) by (simp add: int64_column_def)
  have "col_sum L (column df c) (column (filter_sort L df) c)
         = (if \<forall>r\<in>set (kept L df). to_numeric L (r c) = None then 0
            else if list_all int64_cell (column df c)
            then of_int (wrap64 \<lfloor>\<Sum>r\<leftarrow>kept L df. amount L df c r\<rfloor>)
            else lib_sum L (column df c) (column (filter_sort L df) c))"
    using assms(1) by (rule col_sum_out)
  also have "\<dots> = lib_sum L (column df c) (column (filter_sort L df) c)"
    using a b by (simp only: if_False)
  finally show ?thesis .
qed





text \<open>
  C10. When the frame has no \<open>currentValue\<close> column, it is neither filtered nor sorted:
  every record appears in the output in its original order. The total value is 0. The
  total P&L is 0 when the frame has no \<open>cashPnl\<close> column either, or no record has a
  parseable \<open>cashPnl\<close>. When \<open>cashPnl\<close> is a column of 64-bit integers, the total P&L
  is the sum of \<open>cashPnl\<close> over all records reduced into the signed 64-bit range, which
  is the sum itself when the sum lies in that range; for any other \<open>cashPnl\<close> column in
  which some record has a value it is what \<open>Series.sum()\<close> of the library returns for
  the column.
\<close>

theorem no_value_column_report:
  "\<not> has_col df value_col \<longrightarrow>
     filter_sort L df = df \<and>
     n_positions (df_to_pretty_html_marketstyle L df) = length (df_rows df) \<and>
     table_rows (df_to_pretty_html_marketstyle L df) = rows_html (display L df) \<and>
     total_value (df_to_pretty_html_marketstyle L df) = 0 \<and>
     (\<not> has_col df cash_pnl_col \<or> (\<forall>r\<in>set (df_rows df). to_numeric L (r cash_pnl_col) = None) \<longrightarrow>
        total_pnl (df_to_pretty_html_marketstyle L df) = 0) \<and>
     (int64_column df cash_pnl_col \<longrightarrow>
        total_pnl (df_to_pretty_html_marketstyle L df)
          = of_int (wrap64 \<lfloor>\<Sum>r\<leftarrow>df_rows df. amount L df cash_pnl_col r\<rfloor>) \<and>
        (- (2 ^ 63) \<le> (\<Sum>r\<leftarrow>df_rows df. amount L df cash_pnl_col r) \<and>
         (\<Sum>r\<leftarrow>df_rows df. amount L df cash_pnl_col r) < 2 ^ 63 \<longrightarrow>
           total_pnl (df_to_pretty_html_marketstyle L df)
             = (\<Sum>r\<leftarrow>df_rows df. amount L df cash_pnl_col r))) \<and>
     (has_col df cash_pnl_col \<and> \<not> int64_column df cash_pnl_col \<and>
      (\<exists>r\<in>set (df_rows df). to_numeric L (r cash_pnl_col) \<noteq> None) \<longrightarrow>
        total_pnl (df_to_pretty_html_marketstyle L df)
          = lib_sum L (column df cash_pnl_col) (column df cash_pnl_col))"
proof (intro impI conjI)
  assume h: "\<not> has_col df value_col"
  then show f: "filter_sort L df = df" by (rule rows_filter_sort_no_col)
  from h have k: "kept L df = df_rows df" by (simp add: kept_def)
  show "n_positions (df_to_pretty_html_marketstyle L df) = length (df_rows df)" using f by simp
  show "table_rows (df_to_pretty_html_marketstyle L df) = rows_html (display L df)"
    using f by (simp add: table_rows_report)
  show "total_value (df_to_pretty_html_marketstyle L df) = 0"
    using h by (rule total_value_no_col)
  {
    assume "\<not> has_col df cash_pnl_col \<or> (\<forall>r\<in>set (df_rows df). to_numeric L (r cash_pnl_col) = None)"
    then show "total_pnl (df_to_pretty_html_marketstyle L df) = 0"
      using total_pnl_no_col [of df L] total_pnl_none [of L df] k by auto
  }
  {
    assume i: "int64_column df cash_pnl_col"
    then have c: "has_col df cash_pnl_col" by (simp add: int64_column_def)
    show "total_pnl (df_to_pretty_html_marketstyle L df)
          = of_int (wrap64 \<lfloor>\<Sum>r\<leftarrow>df_rows df. amount L df cash_pnl_col r\<rfloor>)"
      using int64_total [OF i, of L] k by (simp only: total_pnl_col [OF c])
    assume "- (2 ^ 63) \<le> (\<Sum>r\<leftarrow>df_rows df. amount L df cash_pnl_col r) \<and>
         (\<Sum>r\<leftarrow>df_rows df. amount L df cash_pnl_col r) < 2 ^ 63"
    then have "col_sum L (column df cash_pnl_col) (column (filter_sort L df) cash_pnl_col)
               = (\<Sum>r\<leftarrow>kept L df. amount L df cash_pnl_col r)"
      by (intro int64_total_in_range [OF i]) (simp_all only: k)
    then show "total_pnl (df_to_pretty_html_marketstyle L df)
             = (\<Sum>r\<leftarrow>df_rows df. amount L df cash_pnl_col r)"
      by (simp only: total_pnl_col [OF c] k)
  }
  {
    assume a: "has_col df cash_pnl_col \<and> \<not> int64_column df cash_pnl_col \<and>
      (\<exists>r\<in>set (df_rows df). to_numeric L (r cash_pnl_col) \<noteq> None)"
    then have "col_sum L (column df cash_pnl_col) (column (filter_sort L df) cash_pnl_col)
               = lib_sum L (column df cash_pnl_col) (column (filter_sort L df) cash_pnl_col)"
      by (intro lib_total) (simp_all add: k)
    then show "total_pnl (df_to_pretty_html_marketstyle L df)
          = lib_sum L (column df cash_pnl_col) (column df cash_pnl_col)"
      using a f by (simp add: total_pnl_col)
  }
qed

theorem no_value_column_report_witness:
  "\<not> has_col ex_pnl_only value_col \<and>
   map (\<lambda>r. r ''title'') (df_rows (filter_sort example_lib ex_pnl_only)) = [Str ''A'', Str ''B''] \<and>
   n_positions (df_to_pretty_html_marketstyle example_lib ex_pnl_only) = 2 \<and>
   total_value (df_to_pretty_html_marketstyle example_lib ex_pnl_only) = 0 \<and>
   int64_column ex_pnl_only cash_pnl_col \<and>
   total_pnl (df_to_pretty_html_marketstyle example_lib ex_pnl_only) = 15 \<and>
   \<not> has_col ex_no_value value_col \<and> \<not> has_col ex_no_value cash_pnl_col \<and>
   total_pnl (df_to_pretty_html_marketstyle example_lib ex_no_value) = 0"
proof -
  have h: "\<not> has_col ex_pnl_only value_col"
    by (simp add: ex_pnl_only_def frame_defs)
  have g: "\<not> has_col ex_no_value value_col" "\<not> has_col ex_no_value cash_pnl_col"
    by (simp_all add: ex_no_value_def frame_defs)
  have t: "map (\<lambda>r. r ''title'') (df_rows ex_pnl_only) = [Str ''A'', Str ''B'']"
    by (simp add: ex_pnl_only_def frame_defs)
  have n: "length (df_rows ex_pnl_only) = 2"
    by (simp add: ex_pnl_only_def frame_defs)
  have i: "int64_column ex_pnl_only cash_pnl_col"
    by (simp add: int64_column_def int64_cell_def ex_pnl_only_def frame_defs)
  have s: "(\<Sum>r\<leftarrow>df_rows ex_pnl_only. amount example_lib ex_pnl_only cash_pnl_col r) = 15"
    by (simp add: amount_def ex_pnl_only_def frame_defs)
  note t1 = no_value_column_report [of ex_pnl_only example_lib]
  note t2 = no_value_column_report [of ex_no_value example_lib]
  from t1 h t n have a: "map (\<lambda>r. r ''title'') (df_rows (filter_sort example_lib ex_pnl_only)) = [Str ''A'', Str ''B'']"
    "n_positions (df_to_pretty_html_marketstyle example_lib ex_pnl_only) = 2"
    "total_value (df_to_pretty_html_marketstyle example_lib ex_pnl_only) = 0"
    by simp_all
  from t1 h i s have b: "total_pnl (df_to_pretty_html_marketstyle example_lib ex_pnl_only) = 15"
    by simp
  from t2 g have c: "total_pnl (df_to_pretty_html_marketstyle example_lib ex_no_value) = 0"
    by blast
  from h g i a b c show ?thesis by simp
qed

text \<open>
  A frame without the value column but with \<open>cashPnl\<close>: the total P&L is not 0.
\<close>

theorem no_value_column_pnl_counterexample:
  "\<not> has_col ex_pnl_only value_col \<and>
   total_value (df_to_pretty_html_marketstyle example_lib ex_pnl_only) = 0 \<and>
   total_pnl (df_to_pretty_html_marketstyle example_lib ex_pnl_only) = 15"
  by (simp add: total_value_report total_pnl_report value_sum_def cash_sum_def col_sum_def
      int64_cell_def wrap64_def ex_pnl_only_def frame_defs filter_defs Let_def)

section \<open>Properties of the P&L line and the side chip\<close>

text \<open>
  C7. \<open>_fmt_pnl_line\<close> returns the empty string exactly when both arguments are absent.
  Otherwise it returns a \<open>span\<close> whose class is \<open>pos\<close> when the cash amount is present
  and not negative, or absent with a percentage that is not negative, and \<open>neg\<close> in
  every other case.
\<close>

theorem fmt_pnl_line_sign:
  \<open>(fmt_pnl_line L cash pct01 = []) = (cash = None \<and> pct01 = None) \<and>
   (\<not> (cash = None \<and> pct01 = None) \<longrightarrow>
      (\<exists>body. fmt_pnl_line L cash pct01 =
         ''<span class="pnl ''
         @ (if (\<exists>c. cash = Some c \<and> 0 \<le> c) \<or> (cash = None \<and> (\<exists>p. pct01 = Some p \<and> 0 \<le> p))
            then ''pos'' else ''neg'')
         @ ''">'' @ body @ ''</span>''))\<close>
proof (intro conjI impI)
  show "(fmt_pnl_line L cash pct01 = []) = (cash = None \<and> pct01 = None)"
    by (simp add: fmt_pnl_line_def Let_def)
next
  assume a: "\<not> (cash = None \<and> pct01 = None)"
  show \<open>\<exists>body. fmt_pnl_line L cash pct01 =
         ''<span class="pnl ''
         @ (if (\<exists>c. cash = Some c \<and> 0 \<le> c) \<or> (cash = None \<and> (\<exists>p. pct01 = Some p \<and> 0 \<le> p))
            then ''pos'' else ''neg'')
         @ ''">'' @ body @ ''</span>''\<close>
  proof (cases cash)
    case None
    with a obtain p where p: "pct01 = Some p" by (cases pct01) simp_all
    show ?thesis using None p by (simp add: fmt_pnl_line_def Let_def)
  next
    case (Some c)
    show ?thesis using Some by (cases pct01) (simp_all add: fmt_pnl_line_def Let_def)
  qed
qed

theorem fmt_pnl_line_sign_witness:
  \<open>fmt_pnl_line example_lib (Some (- 5)) (Some 0.2) = ''<span class="pnl neg">${:,.2f} ({:.2f}%)</span>'' \<and>
   fmt_pnl_line example_lib (Some 0) (Some (- 1)) = ''<span class="pnl pos">${:,.2f} ({:.2f}%)</span>'' \<and>
   fmt_pnl_line example_lib None (Some 0.2) = ''<span class="pnl pos">({:.2f}%)</span>'' \<and>
   fmt_pnl_line example_lib None (Some (- 0.2)) = ''<span class="pnl neg">({:.2f}%)</span>'' \<and>
   fmt_pnl_line example_lib (Some 7) None = ''<span class="pnl pos">${:,.2f}</span>'' \<and>
   fmt_pnl_line example_lib None None = []\<close>
  using fmt_pnl_line_sign [of example_lib "Some (- 5)" "Some 0.2"] fmt_pnl_line_sign [of example_lib None "Some 0.2"]
    fmt_pnl_line_sign [of example_lib None None]
  by (simp add: fmt_pnl_line_def fmt_money_def example_lib_def example_parse_def Let_def)

lemma literal_here:
  "\<exists>pre post. a @ b @ c @ r = pre @ a @ b @ c @ (post :: string)"
proof -
  have "a @ b @ c @ r = [] @ a @ b @ c @ r" by simp
  then show ?thesis by blast
qed

lemma literal_later:
  "\<exists>pre post. ys = pre @ a @ b @ c @ (post :: string) \<Longrightarrow>
   \<exists>pre post. xs @ ys = pre @ a @ b @ c @ post"
proof -
  assume "\<exists>pre post. ys = pre @ a @ b @ c @ post"
  then obtain pre post where "ys = pre @ a @ b @ c @ post" by blast
  then have "xs @ ys = (xs @ pre) @ a @ b @ c @ post" by simp
  then show ?thesis by blast
qed

lemma market_cell_chip:
  \<open>\<exists>pre post. market_cell L title_i slug_i logo_i side_i shares_i avg_i
     = pre @ ''<div class="market-chip">'' @ chip_html (side_val_of side_i) @ ''</div>'' @ post\<close>
  unfolding market_cell_def Let_def
  by (rule literal_here | rule literal_later)+

lemma market_cells_nth:
  "i < length (df_rows df) \<Longrightarrow>
   market_cells L df ! i
   = market_cell L (titles L df ! i) (slugs L df ! i) (logos L df ! i) (side L df ! i)
       (shares L df ! i) (to_cents L df avg_price_col ! i)"
  by (simp add: market_cells_def)

lemma side_nth:
  "has_col df side_col \<Longrightarrow> i < length (df_rows df) \<Longrightarrow>
   side L df ! i = astype_str L side_col ((df_rows df ! i) side_col)"
  by (simp add: side_def column_def)

text \<open>
  C8. The market cell of a record holds, inside its \<open>market-chip\<close> element, the chip
  made from the entry of the \<open>outcome\<close> series, which is the cell after \<open>astype(str)\<close>.
  For a record without outcome (the cell is NaN, or \<open>None\<close>) in a frame that has the
  column: under pandas 2, where \<open>astype(str)\<close> gives the text \<open>nan\<close> (or \<open>None\<close>), the
  entry is that text, the test \<open>pd.notna\<close> of the loop holds, and the chip is the
  neutral chip reading \<open>nan\<close> (or \<open>None\<close>); under pandas 3, where the entry stays
  missing, there is no chip.
\<close>

theorem missing_outcome_chip:
  \<open>has_col df side_col \<and> i < length (df_rows df) \<longrightarrow>
     (\<exists>pre post. market_cells L df ! i
        = pre @ ''<div class="market-chip">'' @ chip_html (side_val_of (side L df ! i)) @ ''</div>'' @ post) \<and>
     ((df_rows df ! i) side_col = NaN \<and> str_cell L side_col NaN = Some ''nan'' \<longrightarrow>
        side L df ! i = Some ''nan'' \<and>
        chip_html (side_val_of (side L df ! i)) = ''<span class="chip">nan</span>'') \<and>
     ((df_rows df ! i) side_col = PyNone \<and> str_cell L side_col PyNone = Some ''None'' \<longrightarrow>
        side L df ! i = Some ''None'' \<and>
        chip_html (side_val_of (side L df ! i)) = ''<span class="chip">None</span>'') \<and>
     ((df_rows df ! i) side_col = NaN \<and> str_cell L side_col NaN = None \<longrightarrow>
        side L df ! i = None \<and> chip_html (side_val_of (side L df ! i)) = []) \<and>
     ((df_rows df ! i) side_col = PyNone \<and> str_cell L side_col PyNone = None \<longrightarrow>
        side L df ! i = None \<and> chip_html (side_val_of (side L df ! i)) = [])\<close>
proof (intro impI conjI)
  assume a: "has_col df side_col \<and> i < length (df_rows df)"
  then have m: "market_cells L df ! i
     = market_cell L (titles L df ! i) (slugs L df ! i) (logos L df ! i) (side L df ! i)
         (shares L df ! i) (to_cents L df avg_price_col ! i)"
    by (intro market_cells_nth) simp
  show \<open>\<exists>pre post. market_cells L df ! i
        = pre @ ''<div class="market-chip">'' @ chip_html (side_val_of (side L df ! i)) @ ''</div>'' @ post\<close>
    by (simp only: m) (rule market_cell_chip)
  from a have s: "side L df ! i = astype_str L side_col ((df_rows df ! i) side_col)"
    by (intro side_nth) simp_all
  {
    assume b: "(df_rows df ! i) side_col = NaN \<and> str_cell L side_col NaN = Some ''nan''"
    then show n: "side L df ! i = Some ''nan''" using s by simp
    show \<open>chip_html (side_val_of (side L df ! i)) = ''<span class="chip">nan</span>''\<close>
      by (simp add: n side_val_of_def chip_html_def lower_def lower_char_def)
  }
  {
    assume b: "(df_rows df ! i) side_col = PyNone \<and> str_cell L side_col PyNone = Some ''None''"
    then show n: "side L df ! i = Some ''None''" using s by simp
    show \<open>chip_html (side_val_of (side L df ! i)) = ''<span class="chip">None</span>''\<close>
      by (simp add: n side_val_of_def chip_html_def lower_def lower_char_def)
  }
  {
    assume b: "(df_rows df ! i) side_col = NaN \<and> str_cell L side_col NaN = None"
    then show n: "side L df ! i = None" using s by simp
    show "chip_html (side_val_of (side L df ! i)) = []"
      by (simp add: n side_val_of_def chip_html_def lower_def)
  }
  {
    assume b: "(df_rows df ! i) side_col = PyNone \<and> str_cell L side_col PyNone = None"
    then show n: "side L df ! i = None" using s by simp
    show "chip_html (side_val_of (side L df ! i)) = []"
      by (simp add: n side_val_of_def chip_html_def lower_def)
  }
qed

theorem missing_outcome_chip_witness:
  \<open>has_col ex_sides side_col \<and>
   column ex_sides side_col = [Str ''Yes'', NaN] \<and>
   str_cell example_lib side_col NaN = Some ''nan'' \<and>
   side example_lib ex_sides ! 1 = Some ''nan'' \<and>
   chip_html (side_val_of (side example_lib ex_sides ! 1)) = ''<span class="chip">nan</span>'' \<and>
   market_cells example_lib ex_sides ! 1 =
     ''<div class="market-wrap">'' @ nl
     @ spaces 16 @ nl
     @ spaces 16 @ ''<div class="market-content">'' @ nl
     @ spaces 20 @ ''<div class="market-header">'' @ nl
     @ spaces 24 @ ''<div class="market-title"><span class="title-text">B</span></div>'' @ nl
     @ spaces 24 @ ''<div class="market-chip"><span class="chip">nan</span></div>'' @ nl
     @ spaces 20 @ ''</div>'' @ nl
     @ spaces 20 @ nl
     @ spaces 16 @ ''</div>'' @ nl
     @ spaces 12 @ ''</div>'' \<and>
   column ex_sides_null side_col = [Str ''Yes'', PyNone] \<and>
   chip_html (side_val_of (side example_lib ex_sides_null ! 1)) = ''<span class="chip">None</span>'' \<and>
   str_cell example_lib3 side_col NaN = None \<and>
   side example_lib3 ex_sides ! 1 = None \<and>
   chip_html (side_val_of (side example_lib3 ex_sides ! 1)) = [] \<and>
   chip_html (side_val_of (side example_lib3 ex_sides_null ! 1)) = []\<close>
proof -
  have h: "has_col ex_sides side_col \<and> 1 < length (df_rows ex_sides)"
    "has_col ex_sides_null side_col \<and> 1 < length (df_rows ex_sides_null)"
    by (simp_all add: ex_sides_def ex_sides_null_def frame_defs)
  have c: "column ex_sides side_col = [Str ''Yes'', NaN]"
    "column ex_sides_null side_col = [Str ''Yes'', PyNone]"
    by (simp_all add: ex_sides_def ex_sides_null_def frame_defs)
  have r: "(df_rows ex_sides ! 1) side_col = NaN" "(df_rows ex_sides_null ! 1) side_col = PyNone"
    by (simp_all add: ex_sides_def ex_sides_null_def frame_defs)
  have l: "str_cell example_lib side_col NaN = Some ''nan''"
    "str_cell example_lib side_col PyNone = Some ''None''"
    "str_cell example_lib3 side_col NaN = None" "str_cell example_lib3 side_col PyNone = None"
    by (simp_all add: example_lib_def example_lib3_def)
  note t1 = missing_outcome_chip [of ex_sides 1 example_lib]
  note t2 = missing_outcome_chip [of ex_sides_null 1 example_lib]
  note t3 = missing_outcome_chip [of ex_sides 1 example_lib3]
  note t4 = missing_outcome_chip [of ex_sides_null 1 example_lib3]
  from t1 h(1) r(1) l(1)
  have a1: "side example_lib ex_sides ! 1 = Some ''nan''"
    \<open>chip_html (side_val_of (side example_lib ex_sides ! 1)) = ''<span class="chip">nan</span>''\<close>
    by blast+
  have a2: \<open>market_cells example_lib ex_sides ! 1 =
     ''<div class="market-wrap">'' @ nl
     @ spaces 16 @ nl
     @ spaces 16 @ ''<div class="market-content">'' @ nl
     @ spaces 20 @ ''<div class="market-header">'' @ nl
     @ spaces 24 @ ''<div class="market-title"><span class="title-text">B</span></div>'' @ nl
     @ spaces 24 @ ''<div class="market-chip"><span class="chip">nan</span></div>'' @ nl
     @ spaces 20 @ ''</div>'' @ nl
     @ spaces 20 @ nl
     @ spaces 16 @ ''</div>'' @ nl
     @ spaces 12 @ ''</div>''\<close>
    by (simp add: ex_sides_def frame_defs side_def side_val_of_def chip_html_def lower_def
        lower_char_def market_cells_def market_cell_def titles_def slugs_def logos_def shares_def
        nan_series_def to_cents_def strip_def example_lib_def Let_def)
  from t2 h(2) r(2) l(2)
  have a3: \<open>chip_html (side_val_of (side example_lib ex_sides_null ! 1)) = ''<span class="chip">None</span>''\<close>
    by blast
  from t3 h(1) r(1) l(3)
  have a4: "side example_lib3 ex_sides ! 1 = None"
    "chip_html (side_val_of (side example_lib3 ex_sides ! 1)) = []"
    by blast+
  from t4 h(2) r(2) l(4)
  have a5: "chip_html (side_val_of (side example_lib3 ex_sides_null ! 1)) = []"
    by blast
  from h(1) c l(1,3) a1 a2 a3 a4 a5 show ?thesis by simp
qed

section \<open>Properties of the delivery\<close>









lemma deliver_not_read:
  assumes "import_error W = None" "GmailSender (environ W) = Inr cfg" "read_error W = Some e"
  shows "deliver W = Inl e"
  using assms by (simp add: deliver_def)

lemma deliver_not_imported:
  assumes "import_error W = Some e"
  shows "deliver W = Inl e"
  using assms by (simp add: deliver_def)












end
